theory Spec2Isabelle
  imports Complex_Main "HOL-Library.AList"
begin

section \<open>Data model\<close>

subsection \<open>Python values\<close>

text \<open>
  The values that travel through the servers are what \<^verbatim>\<open>json\<close> decoding yields and what
  the tools build with dict and list literals: \<^verbatim>\<open>None\<close>, booleans, integers, strings, lists
  and dicts with string keys. A dict is kept as its items in insertion order. Floating
  point numbers are left out; strings are lists of 8-bit characters.
\<close>

datatype json = JNull | JBool bool | JNum int | JStr string
  | JList "json list" | JDict "(string \<times> json) list"

text \<open>
  \<^verbatim>\<open>str.lower()\<close>: the capital letters among the 8-bit characters are A to Z and
  U+00C0 to U+00DE without the multiplication sign U+00D7, each with its small letter 32
  places further; every other character is kept.
\<close>

definition upper_letters :: string where
  "upper_letters = ''ABCDEFGHIJKLMNOPQRSTUVWXYZ'' @
     [CHR 0xC0, CHR 0xC1, CHR 0xC2, CHR 0xC3, CHR 0xC4, CHR 0xC5, CHR 0xC6,
      CHR 0xC7, CHR 0xC8, CHR 0xC9, CHR 0xCA, CHR 0xCB, CHR 0xCC, CHR 0xCD,
      CHR 0xCE, CHR 0xCF, CHR 0xD0, CHR 0xD1, CHR 0xD2, CHR 0xD3, CHR 0xD4,
      CHR 0xD5, CHR 0xD6, CHR 0xD8, CHR 0xD9, CHR 0xDA, CHR 0xDB, CHR 0xDC,
      CHR 0xDD, CHR 0xDE]"

definition lower_letters :: string where
  "lower_letters = ''abcdefghijklmnopqrstuvwxyz'' @
     [CHR 0xE0, CHR 0xE1, CHR 0xE2, CHR 0xE3, CHR 0xE4, CHR 0xE5, CHR 0xE6,
      CHR 0xE7, CHR 0xE8, CHR 0xE9, CHR 0xEA, CHR 0xEB, CHR 0xEC, CHR 0xED,
      CHR 0xEE, CHR 0xEF, CHR 0xF0, CHR 0xF1, CHR 0xF2, CHR 0xF3, CHR 0xF4,
      CHR 0xF5, CHR 0xF6, CHR 0xF8, CHR 0xF9, CHR 0xFA, CHR 0xFB, CHR 0xFC,
      CHR 0xFD, CHR 0xFE]"

definition lower_char :: "char \<Rightarrow> char" where
  "lower_char c = (case map_of (zip upper_letters lower_letters) c of None \<Rightarrow> c | Some d \<Rightarrow> d)"

definition lower :: "string \<Rightarrow> string" where
  "lower s = map lower_char s"

subsection \<open>Redaction (\<^verbatim>\<open>redact\<close>, the same in all four servers)\<close>

definition REDACT_KEYS :: "string list" where
  "REDACT_KEYS = [''password'', ''authorization'', ''access_token'', ''client_secret'', ''secret'']"

definition REDACTED :: json where
  "REDACTED = JStr ''***REDACTED***''"

fun redact :: "json \<Rightarrow> json" where
  "redact (JDict kvs) =
     JDict (map (\<lambda>(k, v). if lower k \<in> set REDACT_KEYS then (k, REDACTED) else (k, redact v)) kvs)"
| "redact (JList xs) = JList (map redact xs)"
| "redact obj = obj"





subsection \<open>Exceptions, truth values, strings\<close>

text \<open>
  An uncaught Python exception is a value \<open>Inl e\<close> of the result. \<^verbatim>\<open>AttributeError\<close> is what
  \<^verbatim>\<open>x.get(...)\<close> or \<^verbatim>\<open>x.upper()\<close> raises on a value without that method; \<open>APIError\<close>
  stands for whatever the completion client raises.
\<close>

datatype exn = AttributeError | TypeError | ValueError | RuntimeError string | APIError string

type_synonym dict = "(string \<times> json) list"

text \<open>Truth value testing (\<^verbatim>\<open>if x\<close>, \<^verbatim>\<open>x or y\<close>, \<^verbatim>\<open>not x\<close>) and \<^verbatim>\<open>dict.get\<close> with default \<^verbatim>\<open>None\<close>.\<close>

fun truthy :: "json \<Rightarrow> bool" where
  "truthy JNull = False"
| "truthy (JBool b) = b"
| "truthy (JNum n) = (n \<noteq> 0)"
| "truthy (JStr s) = (s \<noteq> [])"
| "truthy (JList xs) = (xs \<noteq> [])"
| "truthy (JDict kvs) = (kvs \<noteq> [])"

definition py_or :: "json \<Rightarrow> json \<Rightarrow> json" where
  "py_or a b = (if truthy a then a else b)"

definition get :: "dict \<Rightarrow> string \<Rightarrow> json" where
  "get d k = (case map_of d k of None \<Rightarrow> JNull | Some v \<Rightarrow> v)"

text \<open>
  \<^verbatim>\<open>str.strip()\<close> removes the white space at both ends: among the 8-bit characters the
  space, U+0009 to U+000D, U+001C to U+001F, U+0085 and U+00A0. Then the substring test
  \<^verbatim>\<open>sub in s\<close>.
\<close>

definition isspace :: "char \<Rightarrow> bool" where
  "isspace c = (c \<in> set [CHR '' '', CHR 0x09, CHR 0x0A, CHR 0x0B, CHR 0x0C, CHR 0x0D,
                          CHR 0x1C, CHR 0x1D, CHR 0x1E, CHR 0x1F, CHR 0x85, CHR 0xA0])"

definition strip :: "string \<Rightarrow> string" where
  "strip s = rev (dropWhile isspace (rev (dropWhile isspace s)))"

fun py_in :: "string \<Rightarrow> string \<Rightarrow> bool" where
  "py_in sub [] = (sub = [])"
| "py_in sub (c # cs) = (take (length sub) (c # cs) = sub \<or> py_in sub cs)"

subsection \<open>The network and the clock\<close>

text \<open>
  What \<^verbatim>\<open>requests\<close> hands back: a \<^verbatim>\<open>RequestException\<close> with its message, or a response with
  its status code, reason phrase and content (empty, decodable as JSON, or some other text).
  Every call to the outside is appended to a trace of events; the environment answers a
  request, or a reading of the clock, as a function of the trace up to and including that
  call, so it may answer the same request differently each time. The events are
  \<^verbatim>\<open>requests.get(url, params)\<close>, \<^verbatim>\<open>requests.request(method, url, params, data)\<close>,
  \<^verbatim>\<open>requests.post(url, data)\<close>, \<^verbatim>\<open>time.time()\<close> and \<^verbatim>\<open>time.sleep(seconds)\<close>. The
  environment also supplies what Python's \<^verbatim>\<open>int\<close> makes of a string (\<open>None\<close> for a
  \<^verbatim>\<open>ValueError\<close>). Headers, credentials,
  timeout and TLS flag of a request are passed on from the configuration and are not
  recorded.
\<close>

datatype body = NoContent | JsonBody json | TextBody string

record response =
  status_code :: int
  content :: body
  reason :: string

datatype outcome = RequestException string | Response response

datatype event = Get string json | Request string string json json | Post "string option" json
  | Time | Sleep int

record env =
  respond :: "event list \<Rightarrow> outcome"
  clock :: "event list \<Rightarrow> real"
  int_of_str :: "string \<Rightarrow> int option"

text \<open>\<^verbatim>\<open>r.json() if r.content else {}\<close>, with \<^verbatim>\<open>{"raw_text": r.text}\<close> when decoding fails.\<close>

definition payload_of :: "response \<Rightarrow> json" where
  "payload_of r = (case content r of NoContent \<Rightarrow> JDict []
     | JsonBody j \<Rightarrow> j | TextBody t \<Rightarrow> JDict [(''raw_text'', JStr t)])"

subsection \<open>\<^verbatim>\<open>epm_mcp_readonly_dualbase.py\<close>\<close>

text \<open>
  \<^verbatim>\<open>load_config()\<close> reads the process environment; the tools below take its outcome, the
  configuration or the \<^verbatim>\<open>RuntimeError\<close> it raises, as an argument.
\<close>

record Config_dualbase =
  service_url :: string
  base_url :: string
  username :: string
  password :: string
  verify_ssl :: bool

definition http_get :: "env \<Rightarrow> string \<Rightarrow> json \<Rightarrow> event list \<Rightarrow> (exn + dict) \<times> event list" where
  "http_get E url params tr =
     (let tr' = tr @ [Get url params] in
      case respond E tr' of
        RequestException e \<Rightarrow>
          (Inr [(''ok'', JBool False), (''error'', JStr ''NETWORK_ERROR''),
                (''message'', JStr e), (''url'', JStr url)], tr')
      | Response r \<Rightarrow>
          (let payload = payload_of r in
           if status_code r \<ge> 300 then
             (case payload of
                JDict p \<Rightarrow>
                  (Inr [(''ok'', JBool False), (''error'', JStr ''HTTP_ERROR''),
                        (''status_code'', JNum (status_code r)),
                        (''message'', py_or (get p ''message'') (py_or (get p ''details'') (JStr (reason r)))),
                        (''response'', redact payload), (''url'', JStr url)], tr')
              | _ \<Rightarrow> (Inl AttributeError, tr'))
           else
             (Inr [(''ok'', JBool True), (''status_code'', JNum (status_code r)),
                   (''response'', redact payload), (''url'', JStr url)], tr')))"

definition epm_get_dualbase ::
  "env \<Rightarrow> Config_dualbase \<Rightarrow> string \<Rightarrow> json \<Rightarrow> event list \<Rightarrow> (exn + dict) \<times> event list" where
  "epm_get_dualbase E cfg interop_path params tr =
     (let url1 = base_url cfg @ interop_path in
      case http_get E url1 params tr of
        (Inl e, tr1) \<Rightarrow> (Inl e, tr1)
      | (Inr r1, tr1) \<Rightarrow>
          if truthy (get r1 ''ok'') then (Inr (AList.update ''base_used'' (JStr ''base_url'') r1), tr1)
          else if get r1 ''status_code'' = JNum 404 then
            (let url2 = base_url cfg @ ''/epmcloud'' @ interop_path in
             case http_get E url2 params tr1 of
               (Inl e, tr2) \<Rightarrow> (Inl e, tr2)
             | (Inr r2, tr2) \<Rightarrow>
                 if truthy (get r2 ''ok'')
                 then (Inr (AList.update ''base_used'' (JStr ''epmcloud_context'') r2), tr2)
                 else (Inr [(''ok'', JBool False), (''attempts'', JList [JDict r1, JDict r2])], tr2))
          else (Inr r1, tr1))"

definition INVALID_OPERATION :: dict where
  "INVALID_OPERATION = [(''ok'', JBool False), (''error'', JStr ''INVALID_OPERATION''),
     (''message'', JStr ''operation must be a simple token like 'download'.'')]"

definition epm_get_status ::
  "env \<Rightarrow> exn + Config_dualbase \<Rightarrow> string \<Rightarrow> string \<Rightarrow> event list \<Rightarrow> (exn + dict) \<times> event list" where
  "epm_get_status E load_config operation job_id tr =
     (case load_config of
        Inl e \<Rightarrow> (Inl e, tr)
      | Inr cfg \<Rightarrow>
          (let op = lower (strip operation) in
           if op = [] \<or> py_in ''/'' op \<or> py_in ''..'' op then
             (Inr INVALID_OPERATION, tr)
           else epm_get_dualbase E cfg (''/interop/rest/v2/status/'' @ op @ ''/'' @ job_id) JNull tr))"

subsection \<open>\<^verbatim>\<open>epm_mcp_readonly.py\<close>\<close>

record Config_readonly =
  service_url_ro :: string
  username_ro :: string
  password_ro :: string
  verify_ssl_ro :: bool

definition epm_get :: "env \<Rightarrow> Config_readonly \<Rightarrow> string \<Rightarrow> json \<Rightarrow> event list \<Rightarrow> (exn + dict) \<times> event list" where
  "epm_get E cfg path params tr =
     (let url = service_url_ro cfg @ path; tr' = tr @ [Get url params] in
      case respond E tr' of
        RequestException e \<Rightarrow>
          (Inr [(''ok'', JBool False), (''error'', JStr ''NETWORK_ERROR''),
                (''message'', JStr e), (''url'', JStr url)], tr')
      | Response r \<Rightarrow>
          (let payload = payload_of r in
           if status_code r \<ge> 300 then
             (case payload of
                JDict p \<Rightarrow>
                  (Inr [(''ok'', JBool False), (''error'', JStr ''HTTP_ERROR''),
                        (''status_code'', JNum (status_code r)),
                        (''message'', py_or (get p ''message'') (py_or (get p ''details'') (JStr (reason r)))),
                        (''response'', redact payload), (''url'', JStr url)], tr')
              | _ \<Rightarrow> (Inl AttributeError, tr'))
           else
             (Inr [(''ok'', JBool True), (''status_code'', JNum (status_code r)),
                   (''response'', redact payload), (''url'', JStr url)], tr')))"

definition epm_get_status_ro ::
  "env \<Rightarrow> exn + Config_readonly \<Rightarrow> string \<Rightarrow> string \<Rightarrow> event list \<Rightarrow> (exn + dict) \<times> event list" where
  "epm_get_status_ro E load_config operation job_id tr =
     (case load_config of
        Inl e \<Rightarrow> (Inl e, tr)
      | Inr cfg \<Rightarrow>
          (let op = lower (strip operation) in
           if op = [] \<or> py_in ''/'' op \<or> py_in ''..'' op then (Inr INVALID_OPERATION, tr)
           else epm_get E cfg (''/interop/rest/v2/status/'' @ op @ ''/'' @ job_id) JNull tr))"

subsection \<open>More of Python: \<^verbatim>\<open>upper\<close>, \<^verbatim>\<open>str\<close> of an integer, \<^verbatim>\<open>int\<close> of a time, iteration\<close>

text \<open>
  \<^verbatim>\<open>str.upper()\<close>: a small letter becomes its capital, the sharp s U+00DF becomes
  \<^verbatim>\<open>SS\<close>. The capitals of the micro sign U+00B5 and of U+00FF lie beyond the 8-bit
  characters; these two are kept (the code only compares upper-cased text with ASCII
  words, which no text holding either of them equals, before or after).
\<close>

definition upper_char :: "char \<Rightarrow> string" where
  "upper_char c =
     (if c = CHR 0xDF then ''SS''
      else [case map_of (zip lower_letters upper_letters) c of None \<Rightarrow> c | Some d \<Rightarrow> d])"

definition upper :: "string \<Rightarrow> string" where
  "upper s = concat (map upper_char s)"

text \<open>\<^verbatim>\<open>a or b\<close> for an optional string \<open>a\<close> and a string \<open>b\<close>.\<close>

definition str_or :: "string option \<Rightarrow> string \<Rightarrow> string" where
  "str_or a b = (case a of None \<Rightarrow> b | Some s \<Rightarrow> if s = [] then b else s)"

text \<open>Decimal digits of an integer, as an f-string prints it.\<close>

definition digit :: "nat \<Rightarrow> char" where
  "digit d = ''0123456789'' ! d"

fun str_nat :: "nat \<Rightarrow> string" where
  "str_nat n = (if n < 10 then [digit n] else str_nat (n div 10) @ [digit (n mod 10)])"

declare str_nat.simps [simp del]

definition str_int :: "int \<Rightarrow> string" where
  "str_int i = (if i < 0 then CHR ''-'' # str_nat (nat (- i)) else str_nat (nat i))"

text \<open>\<^verbatim>\<open>int(time.time())\<close>: truncation towards zero of the clock reading.\<close>

definition int_of_time :: "real \<Rightarrow> int" where
  "int_of_time t = (if t < 0 then \<lceil>t\<rceil> else \<lfloor>t\<rfloor>)"

text \<open>
  A list comprehension whose element expression may raise stops at the first exception.
  Iterating a list gives its elements, a string its characters, a dict its keys; numbers,
  booleans and \<^verbatim>\<open>None\<close> are not iterable. \<^verbatim>\<open>x.get(k)\<close> exists on dicts only.
\<close>

fun map_exn :: "('a \<Rightarrow> exn + 'b) \<Rightarrow> 'a list \<Rightarrow> exn + 'b list" where
  "map_exn f [] = Inr []"
| "map_exn f (x # xs) =
     (case f x of Inl e \<Rightarrow> Inl e
      | Inr y \<Rightarrow> (case map_exn f xs of Inl e \<Rightarrow> Inl e | Inr ys \<Rightarrow> Inr (y # ys)))"

fun py_iter :: "json \<Rightarrow> exn + json list" where
  "py_iter (JList xs) = Inr xs"
| "py_iter (JStr s) = Inr (map (\<lambda>c. JStr [c]) s)"
| "py_iter (JDict kvs) = Inr (map (\<lambda>(k, v). JStr k) kvs)"
| "py_iter _ = Inl TypeError"

fun py_get :: "json \<Rightarrow> string \<Rightarrow> exn + json" where
  "py_get (JDict d) k = Inr (get d k)"
| "py_get _ k = Inl AttributeError"

text \<open>\<^verbatim>\<open>terminal\<close> (the same in both Planning servers); \<^verbatim>\<open>.upper()\<close> exists on strings only.\<close>

definition terminal :: "json \<Rightarrow> exn + bool" where
  "terminal status =
     (case py_or status (JStr []) of
        JStr s \<Rightarrow> Inr (upper s \<in> set [''SUCCEEDED'', ''FAILED'', ''ERROR'', ''CANCELED'', ''CANCELLED''])
      | _ \<Rightarrow> Inl AttributeError)"

subsection \<open>\<^verbatim>\<open>pbcs_mcp_readonly.py\<close>\<close>

record Config_observer =
  base_url_ob :: string
  application_ob :: string
  api_version_ob :: string
  username_ob :: string
  password_ob :: string
  verify_ssl_ob :: bool

definition pbcs_get :: "env \<Rightarrow> Config_observer \<Rightarrow> string \<Rightarrow> json \<Rightarrow> event list \<Rightarrow> (exn + dict) \<times> event list" where
  "pbcs_get E cfg path params tr =
     (let url = base_url_ob cfg @ path; tr' = tr @ [Get url params] in
      case respond E tr' of
        RequestException e \<Rightarrow>
          (Inr [(''ok'', JBool False), (''error'', JStr ''NETWORK_ERROR''),
                (''message'', JStr e), (''url'', JStr url)], tr')
      | Response r \<Rightarrow>
          (let payload = payload_of r in
           if status_code r \<ge> 300 then
             (case payload of
                JDict p \<Rightarrow>
                  (Inr [(''ok'', JBool False), (''error'', JStr ''HTTP_ERROR''),
                        (''status_code'', JNum (status_code r)),
                        (''message'', py_or (get p ''message'') (py_or (get p ''details'') (JStr (reason r)))),
                        (''response'', redact payload), (''url'', JStr url)], tr')
              | _ \<Rightarrow> (Inl AttributeError, tr'))
           else
             (Inr [(''ok'', JBool True), (''status_code'', JNum (status_code r)),
                   (''response'', redact payload), (''url'', JStr url)], tr')))"

text \<open>The path \<^verbatim>\<open>/HyperionPlanning/rest/{v}/applications/{app}/jobs/{job_id}\<close>.\<close>

definition job_url_ro :: "Config_observer \<Rightarrow> string option \<Rightarrow> string option \<Rightarrow> string \<Rightarrow> string" where
  "job_url_ro cfg application api_version job_id =
     ''/HyperionPlanning/rest/'' @ str_or api_version (api_version_ob cfg) @ ''/applications/''
       @ str_or application (application_ob cfg) @ ''/jobs/'' @ job_id"

definition planning_get_job_status_ro ::
  "env \<Rightarrow> exn + Config_observer \<Rightarrow> string \<Rightarrow> string option \<Rightarrow> string option \<Rightarrow> event list
     \<Rightarrow> (exn + dict) \<times> event list" where
  "planning_get_job_status_ro E load_config job_id application api_version tr =
     (case load_config of
        Inl e \<Rightarrow> (Inl e, tr)
      | Inr cfg \<Rightarrow>
          (case pbcs_get E cfg (job_url_ro cfg application api_version job_id) JNull tr of
             (Inl e, tr1) \<Rightarrow> (Inl e, tr1)
           | (Inr res, tr1) \<Rightarrow>
               if \<not> truthy (get res ''ok'') then (Inr res, tr1)
               else
                 (case get res ''response'' of
                    JDict p \<Rightarrow>
                      (Inr [(''ok'', JBool True), (''jobId'', JStr job_id),
                            (''status'', py_or (get p ''status'') (py_or (get p ''descriptiveStatus'') (get p ''state''))),
                            (''percentComplete'', get p ''percentComplete''),
                            (''startTime'', get p ''startTime''),
                            (''endTime'', get p ''endTime''),
                            (''raw'', JDict p)], tr1)
                  | _ \<Rightarrow> (Inl AttributeError, tr1))))"

definition compact_ro :: "json \<Rightarrow> exn + json" where
  "compact_ro it =
     (case it of
        JDict d \<Rightarrow> Inr (JDict [(''severity'', get d ''severity''), (''type'', get d ''type''),
                                (''row'', get d ''row''), (''message'', get d ''message'')])
      | _ \<Rightarrow> Inl AttributeError)"

definition planning_get_job_details_ro ::
  "env \<Rightarrow> exn + Config_observer \<Rightarrow> string \<Rightarrow> int \<Rightarrow> int \<Rightarrow> string option \<Rightarrow> string option \<Rightarrow> event list
     \<Rightarrow> (exn + dict) \<times> event list" where
  "planning_get_job_details_ro E load_config job_id offset limit application api_version tr =
     (case load_config of
        Inl e \<Rightarrow> (Inl e, tr)
      | Inr cfg \<Rightarrow>
          (case pbcs_get E cfg (job_url_ro cfg application api_version job_id @ ''/details'')
                  (JDict [(''offset'', JNum offset), (''limit'', JNum limit)]) tr of
             (Inl e, tr1) \<Rightarrow> (Inl e, tr1)
           | (Inr res, tr1) \<Rightarrow>
               if \<not> truthy (get res ''ok'') then (Inr res, tr1)
               else
                 (case py_get (get res ''response'') ''items'' of
                    Inl e \<Rightarrow> (Inl e, tr1)
                  | Inr its \<Rightarrow>
                      (case py_iter (py_or its (JList [])) of
                         Inl e \<Rightarrow> (Inl e, tr1)
                       | Inr items \<Rightarrow>
                           (case map_exn compact_ro items of
                              Inl e \<Rightarrow> (Inl e, tr1)
                            | Inr compact_items \<Rightarrow>
                                (Inr [(''ok'', JBool True), (''jobId'', JStr job_id),
                                      (''offset'', JNum offset), (''limit'', JNum limit),
                                      (''count'', JNum (int (length compact_items))),
                                      (''items'', JList compact_items)], tr1))))))"

text \<open>
  The polling loop of \<^verbatim>\<open>planning_watch_job\<close>. It is left by \<^verbatim>\<open>return\<close> (a failure result),
  by \<^verbatim>\<open>break\<close> (with the polls and the last status) or by an exception; it may also run for
  ever, which is the value \<open>None\<close>.
\<close>

datatype loop_exit = Return dict | Break "json list" dict

partial_function (option) watch_loop ::
  "env \<Rightarrow> exn + Config_observer \<Rightarrow> string \<Rightarrow> string option \<Rightarrow> string option \<Rightarrow> int \<Rightarrow> int
     \<Rightarrow> real \<Rightarrow> json list \<Rightarrow> event list \<Rightarrow> ((exn + loop_exit) \<times> event list) option" where
  "watch_loop E load_config job_id application api_version poll_interval_seconds timeout_seconds
       start polls tr =
     (case planning_get_job_status_ro E load_config job_id application api_version tr of
        (Inl e, tr1) \<Rightarrow> Some (Inl e, tr1)
      | (Inr st, tr1) \<Rightarrow>
          if \<not> truthy (get st ''ok'') then
            Some (Inr (Return [(''ok'', JBool False), (''error'', JStr ''POLL_FAILED''),
                               (''jobId'', JStr job_id), (''status_call'', JDict st)]), tr1)
          else
            (let tr2 = tr1 @ [Time];
                 polls' = polls @ [JDict [(''ts'', JNum (int_of_time (clock E tr2))),
                                          (''status'', get st ''status''),
                                          (''percentComplete'', get st ''percentComplete'')]]
             in case terminal (get st ''status'') of
                  Inl e \<Rightarrow> Some (Inl e, tr2)
                | Inr b \<Rightarrow>
                    if b then Some (Inr (Break polls' st), tr2)
                    else
                    (let tr3 = tr2 @ [Time] in
                     if clock E tr3 - start \<ge> of_int timeout_seconds then
                       Some (Inr (Return [(''ok'', JBool False), (''error'', JStr ''TIMEOUT''),
                               (''message'', JStr (''Job did not reach terminal state within ''
                                   @ str_int timeout_seconds @ ''s'')),
                               (''jobId'', JStr job_id), (''lastStatus'', JDict st),
                               (''polls'', JList polls')]), tr3)
                     else watch_loop E load_config job_id application api_version
                            poll_interval_seconds timeout_seconds start polls'
                            (tr3 @ [Sleep (max 1 poll_interval_seconds)]))))"

definition planning_watch_job ::
  "env \<Rightarrow> exn + Config_observer \<Rightarrow> string \<Rightarrow> int \<Rightarrow> int \<Rightarrow> bool \<Rightarrow> int \<Rightarrow> int
     \<Rightarrow> string option \<Rightarrow> string option \<Rightarrow> event list \<Rightarrow> ((exn + dict) \<times> event list) option" where
  "planning_watch_job E load_config job_id poll_interval_seconds timeout_seconds include_details
       details_offset details_limit application api_version tr =
     (let tr0 = tr @ [Time]; start = clock E tr0 in
      case watch_loop E load_config job_id application api_version poll_interval_seconds
             timeout_seconds start [] tr0 of
        None \<Rightarrow> None
      | Some (Inl e, tr1) \<Rightarrow> Some (Inl e, tr1)
      | Some (Inr (Return res), tr1) \<Rightarrow> Some (Inr res, tr1)
      | Some (Inr (Break polls last_status), tr1) \<Rightarrow>
          (let job = JDict [(''jobId'', JStr job_id), (''finalStatus'', get last_status ''status''),
                            (''pollCount'', JNum (int (length polls))), (''polls'', JList polls)]
           in if include_details then
                (case planning_get_job_details_ro E load_config job_id details_offset details_limit
                        application api_version tr1 of
                   (Inl e, tr2) \<Rightarrow> Some (Inl e, tr2)
                 | (Inr details, tr2) \<Rightarrow>
                     Some (Inr [(''ok'', JBool True), (''job'', job), (''details'', JDict details)], tr2))
              else Some (Inr [(''ok'', JBool True), (''job'', job), (''details'', JNull)], tr1)))"

subsection \<open>\<^verbatim>\<open>pbcs_copilot_mcp_real.py\<close>\<close>

record Config_copilot =
  base_url_cp :: string
  application_cp :: string
  api_version_cp :: string
  verify_ssl_cp :: bool
  auth_mode :: string
  username_cp :: "string option"
  password_cp :: "string option"
  idcs_token_url :: "string option"
  oauth_client_id :: "string option"
  oauth_client_secret :: "string option"
  oauth_scope :: "string option"
  client_api_key :: "string option"
  allowlist_jobs :: "string option"

text \<open>Truth value of an optional string: neither \<^verbatim>\<open>None\<close> nor empty.\<close>

definition truthy_opt :: "string option \<Rightarrow> bool" where
  "truthy_opt a = (case a of None \<Rightarrow> False | Some s \<Rightarrow> s \<noteq> [])"

definition enforce_client_key :: "Config_copilot \<Rightarrow> string option \<Rightarrow> dict option" where
  "enforce_client_key cfg key =
     (if truthy_opt (client_api_key cfg) \<and> key \<noteq> client_api_key cfg
      then Some [(''ok'', JBool False), (''error'', JStr ''UNAUTHORIZED_CLIENT''),
                 (''message'', JStr ''Invalid MCP client API key.'')]
      else None)"

text \<open>\<^verbatim>\<open>s.split(",")\<close>.\<close>

fun split_comma :: "string \<Rightarrow> string list" where
  "split_comma [] = [[]]"
| "split_comma (c # cs) =
     (if c = CHR '','' then [] # split_comma cs
      else (case split_comma cs of [] \<Rightarrow> [[c]] | w # ws \<Rightarrow> (c # w) # ws))"

definition allowlist_check :: "Config_copilot \<Rightarrow> string \<Rightarrow> string \<Rightarrow> dict option" where
  "allowlist_check cfg job_type job_name =
     (case allowlist_jobs cfg of
        None \<Rightarrow> None
      | Some s \<Rightarrow>
          if s = [] then None
          else
            (let allowed = set (filter (\<lambda>x. x \<noteq> []) (map strip (split_comma s)));
                 key = job_type @ '':'' @ job_name
             in if key \<notin> allowed
                then Some [(''ok'', JBool False), (''error'', JStr ''JOB_NOT_ALLOWED''),
                           (''message'', JStr (''Job not allowlisted: '' @ key))]
                else None))"

text \<open>
  The token cache: \<^verbatim>\<open>token\<close> is \<^verbatim>\<open>None\<close> (\<open>JNull\<close>) at start. \<^verbatim>\<open>get\<close> reads the clock only
  when a token is held (the \<^verbatim>\<open>and\<close> short-circuits); \<^verbatim>\<open>set\<close> reads it once.
\<close>

record TokenCache =
  token :: json
  expires_at :: real

definition TokenCache_get :: "env \<Rightarrow> TokenCache \<Rightarrow> event list \<Rightarrow> json \<times> event list" where
  "TokenCache_get E c tr =
     (if truthy (token c) then
        (let tr' = tr @ [Time] in
         if clock E tr' < expires_at c - 30 then (token c, tr') else (JNull, tr'))
      else (JNull, tr))"

definition TokenCache_set :: "env \<Rightarrow> TokenCache \<Rightarrow> json \<Rightarrow> int \<Rightarrow> event list \<Rightarrow> TokenCache \<times> event list" where
  "TokenCache_set E c tok expires_in tr =
     (let tr' = tr @ [Time] in
      (c\<lparr>token := tok, expires_at := clock E tr' + of_int (max 0 expires_in)\<rparr>, tr'))"

text \<open>\<^verbatim>\<open>int(x)\<close> on a decoded value.\<close>

fun py_int :: "env \<Rightarrow> json \<Rightarrow> exn + int" where
  "py_int E (JNum n) = Inr n"
| "py_int E (JBool b) = Inr (if b then 1 else 0)"
| "py_int E (JStr s) = (case int_of_str E s of None \<Rightarrow> Inl ValueError | Some n \<Rightarrow> Inr n)"
| "py_int E _ = Inl TypeError"

text \<open>\<^verbatim>\<open>resp.json()\<close>, with \<^verbatim>\<open>{"raw_text": resp.text}\<close> when decoding fails (also on no content).\<close>

definition token_payload_of :: "response \<Rightarrow> json" where
  "token_payload_of r = (case content r of NoContent \<Rightarrow> JDict [(''raw_text'', JStr [])]
     | JsonBody j \<Rightarrow> j | TextBody t \<Rightarrow> JDict [(''raw_text'', JStr t)])"

definition get_oauth_token ::
  "env \<Rightarrow> Config_copilot \<Rightarrow> TokenCache \<Rightarrow> event list
     \<Rightarrow> (exn + bool \<times> dict) \<times> TokenCache \<times> event list" where
  "get_oauth_token E cfg c tr =
     (case TokenCache_get E c tr of
        (cached, tr0) \<Rightarrow>
          if truthy cached then
            (Inr (True, [(''access_token'', cached), (''cached'', JBool True)]), c, tr0)
          else
            (let data = [(''grant_type'', JStr ''client_credentials'')]
                   @ (case oauth_scope cfg of
                        None \<Rightarrow> []
                      | Some s \<Rightarrow> if s = [] then [] else [(''scope'', JStr s)]);
                 tr1 = tr0 @ [Post (idcs_token_url cfg) (JDict data)]
             in case respond E tr1 of
                  RequestException e \<Rightarrow>
                    (Inr (False, [(''error'', JStr ''OAUTH_NETWORK_ERROR''), (''message'', JStr e)]), c, tr1)
                | Response resp \<Rightarrow>
                    (let payload = token_payload_of resp in
                     if status_code resp \<ge> 300 then
                       (Inr (False, [(''error'', JStr ''OAUTH_HTTP_ERROR''),
                                     (''status_code'', JNum (status_code resp)),
                                     (''response'', payload)]), c, tr1)
                     else
                       (case payload of
                          JDict p \<Rightarrow>
                            (let tok = get p ''access_token'';
                                 expires_in = (case map_of p ''expires_in'' of
                                                 None \<Rightarrow> JNum 3600 | Some v \<Rightarrow> v)
                             in if \<not> truthy tok then
                                  (Inr (False, [(''error'', JStr ''OAUTH_BAD_RESPONSE''),
                                                (''response'', payload)]), c, tr1)
                                else
                                  (case py_int E expires_in of
                                     Inl e \<Rightarrow> (Inl e, c, tr1)
                                   | Inr n \<Rightarrow>
                                       (case TokenCache_set E c tok n tr1 of
                                          (c', tr2) \<Rightarrow>
                                            (Inr (True, [(''access_token'', tok),
                                                         (''cached'', JBool False)]), c', tr2))))
                        | _ \<Rightarrow> (Inl AttributeError, c, tr1)))))"

text \<open>\<^verbatim>\<open>{"ok": False, **redact(tok)}\<close>: the redacted items, laid over the \<^verbatim>\<open>ok\<close> entry.\<close>

definition redact_dict :: "dict \<Rightarrow> dict" where
  "redact_dict d = (case redact (JDict d) of JDict d' \<Rightarrow> d' | _ \<Rightarrow> [])"

definition dict_merge :: "dict \<Rightarrow> dict \<Rightarrow> dict" where
  "dict_merge d d' = foldl (\<lambda>acc (k, v). AList.update k v acc) d d'"

text \<open>
  \<^verbatim>\<open>pbcs_request\<close>: first the credentials (a token in \<^verbatim>\<open>oauth2\<close> mode), then the request itself
  and the classification of its outcome (\<open>pbcs_send\<close>, the second half of the source
  function).
\<close>

definition pbcs_send ::
  "env \<Rightarrow> string \<Rightarrow> string \<Rightarrow> json \<Rightarrow> json \<Rightarrow> event list \<Rightarrow> (exn + dict) \<times> event list" where
  "pbcs_send E method url params json_body tr =
     (let tr' = tr @ [Request (upper method) url params json_body] in
      case respond E tr' of
        RequestException e \<Rightarrow>
          (Inr [(''ok'', JBool False), (''error'', JStr ''NETWORK_ERROR''), (''message'', JStr e)], tr')
      | Response r \<Rightarrow>
          (let payload = payload_of r in
           if status_code r \<ge> 300 then
             (case payload of
                JDict p \<Rightarrow>
                  (Inr [(''ok'', JBool False), (''error'', JStr ''HTTP_ERROR''),
                        (''status_code'', JNum (status_code r)),
                        (''message'', py_or (get p ''message'') (py_or (get p ''details'') (JStr (reason r)))),
                        (''response'', redact payload)], tr')
              | _ \<Rightarrow> (Inl AttributeError, tr'))
           else
             (Inr [(''ok'', JBool True), (''status_code'', JNum (status_code r)),
                   (''response'', redact payload)], tr')))"

definition pbcs_request ::
  "env \<Rightarrow> Config_copilot \<Rightarrow> string \<Rightarrow> string \<Rightarrow> json \<Rightarrow> json \<Rightarrow> TokenCache \<Rightarrow> event list
     \<Rightarrow> (exn + dict) \<times> TokenCache \<times> event list" where
  "pbcs_request E cfg method path params json_body c tr =
     (let url = base_url_cp cfg @ path in
      if auth_mode cfg = ''basic'' then
        (case pbcs_send E method url params json_body tr of (r, tr') \<Rightarrow> (r, c, tr'))
      else
        (case get_oauth_token E cfg c tr of
           (Inl e, c1, tr1) \<Rightarrow> (Inl e, c1, tr1)
         | (Inr (ok, tok), c1, tr1) \<Rightarrow>
             if \<not> ok then (Inr (dict_merge [(''ok'', JBool False)] (redact_dict tok)), c1, tr1)
             else (case pbcs_send E method url params json_body tr1 of (r, tr') \<Rightarrow> (r, c1, tr'))))"

text \<open>
  \<^verbatim>\<open>repr\<close> of a string: in single quotes, or in double quotes when it holds a single
  quote and no double quote; the quote and the backslash are escaped, tab, newline and
  carriage return are written \<^verbatim>\<open>\t\<close>, \<^verbatim>\<open>\n\<close>, \<^verbatim>\<open>\r\<close>, and the other characters that are
  not printable (below U+0020, U+007F to U+00A0, U+00AD) as \<^verbatim>\<open>\x\<close> and two hexadecimal digits.
\<close>

definition hex_digit :: "nat \<Rightarrow> char" where
  "hex_digit d = ''0123456789abcdef'' ! d"

definition repr_char :: "char \<Rightarrow> char \<Rightarrow> string" where
  "repr_char quote c =
     (let n = (of_char c :: nat) in
      if c = quote \<or> c = CHR 0x5C then [CHR 0x5C, c]
      else if c = CHR 0x09 then [CHR 0x5C, CHR ''t'']
      else if c = CHR 0x0A then [CHR 0x5C, CHR ''n'']
      else if c = CHR 0x0D then [CHR 0x5C, CHR ''r'']
      else if n < 32 \<or> (127 \<le> n \<and> n \<le> 160) \<or> n = 173
        then [CHR 0x5C, CHR ''x'', hex_digit (n div 16), hex_digit (n mod 16)]
      else [c])"

definition repr_str :: "string \<Rightarrow> string" where
  "repr_str s =
     (let quote = (if CHR 0x27 \<in> set s \<and> CHR 0x22 \<notin> set s then CHR 0x22 else CHR 0x27)
      in [quote] @ concat (map (repr_char quote) s) @ [quote])"

text \<open>\<^verbatim>\<open>", ".join(parts)\<close>.\<close>

fun join_comma :: "string list \<Rightarrow> string" where
  "join_comma [] = []"
| "join_comma [p] = p"
| "join_comma (p # ps) = p @ '', '' @ join_comma ps"

text \<open>\<^verbatim>\<open>repr(x)\<close>, and \<^verbatim>\<open>str(x)\<close> as an f-string prints a job id: a string as it is, any other
  value as its \<^verbatim>\<open>repr\<close>.\<close>

fun py_repr :: "json \<Rightarrow> string" where
  "py_repr JNull = ''None''"
| "py_repr (JBool b) = (if b then ''True'' else ''False'')"
| "py_repr (JNum n) = str_int n"
| "py_repr (JStr s) = repr_str s"
| "py_repr (JList xs) = ''['' @ join_comma (map py_repr xs) @ '']''"
| "py_repr (JDict kvs) =
     ''{'' @ join_comma (map (\<lambda>(k, v). repr_str k @ '': '' @ py_repr v) kvs) @ ''}''"

definition py_str :: "json \<Rightarrow> string" where
  "py_str x = (case x of JStr s \<Rightarrow> s | _ \<Rightarrow> py_repr x)"

definition jobs_url :: "Config_copilot \<Rightarrow> string option \<Rightarrow> string option \<Rightarrow> string" where
  "jobs_url cfg application api_version =
     ''/HyperionPlanning/rest/'' @ str_or api_version (api_version_cp cfg) @ ''/applications/''
       @ str_or application (application_cp cfg) @ ''/jobs''"

definition planning_execute_job ::
  "env \<Rightarrow> exn + Config_copilot \<Rightarrow> string \<Rightarrow> string \<Rightarrow> json \<Rightarrow> string option \<Rightarrow> string option
     \<Rightarrow> string option \<Rightarrow> TokenCache \<Rightarrow> event list \<Rightarrow> (exn + dict) \<times> TokenCache \<times> event list" where
  "planning_execute_job E load_config job_type job_name parameters application api_version key c tr =
     (case load_config of
        Inl e \<Rightarrow> (Inl e, c, tr)
      | Inr cfg \<Rightarrow>
          (case enforce_client_key cfg key of
             Some deny \<Rightarrow> (Inr deny, c, tr)
           | None \<Rightarrow>
               (case allowlist_check cfg job_type job_name of
                  Some guard \<Rightarrow> (Inr guard, c, tr)
                | None \<Rightarrow>
                    (let body = [(''jobType'', JStr job_type), (''jobName'', JStr job_name)]
                           @ (if truthy parameters then [(''parameters'', parameters)] else [])
                     in case pbcs_request E cfg ''POST'' (jobs_url cfg application api_version)
                               JNull (JDict body) c tr of
                          (Inl e, c1, tr1) \<Rightarrow> (Inl e, c1, tr1)
                        | (Inr res, c1, tr1) \<Rightarrow>
                            if \<not> truthy (get res ''ok'') then (Inr res, c1, tr1)
                            else
                              (case get res ''response'' of
                                 JDict p \<Rightarrow>
                                   (Inr [(''ok'', JBool True),
                                         (''jobId'', py_or (get p ''jobId'') (py_or (get p ''jobID'')
                                                       (py_or (get p ''id'') (get p ''jobIdentifier'')))),
                                         (''status'', py_or (get p ''status'')
                                                       (py_or (get p ''descriptiveStatus'') (get p ''state''))),
                                         (''raw'', JDict p)], c1, tr1)
                               | _ \<Rightarrow> (Inl AttributeError, c1, tr1))))))"

definition planning_get_job_status ::
  "env \<Rightarrow> exn + Config_copilot \<Rightarrow> json \<Rightarrow> string option \<Rightarrow> string option \<Rightarrow> string option
     \<Rightarrow> TokenCache \<Rightarrow> event list \<Rightarrow> (exn + dict) \<times> TokenCache \<times> event list" where
  "planning_get_job_status E load_config job_id application api_version key c tr =
     (case load_config of
        Inl e \<Rightarrow> (Inl e, c, tr)
      | Inr cfg \<Rightarrow>
          (case enforce_client_key cfg key of
             Some deny \<Rightarrow> (Inr deny, c, tr)
           | None \<Rightarrow>
               (case pbcs_request E cfg ''GET''
                       (jobs_url cfg application api_version @ ''/'' @ py_str job_id) JNull JNull c tr of
                  (Inl e, c1, tr1) \<Rightarrow> (Inl e, c1, tr1)
                | (Inr res, c1, tr1) \<Rightarrow>
                    if \<not> truthy (get res ''ok'') then (Inr res, c1, tr1)
                    else
                      (case get res ''response'' of
                         JDict p \<Rightarrow>
                           (Inr [(''ok'', JBool True), (''jobId'', job_id),
                                 (''status'', py_or (get p ''status'')
                                               (py_or (get p ''descriptiveStatus'') (get p ''state''))),
                                 (''percentComplete'', py_or (get p ''percentComplete'') (get p ''progress'')),
                                 (''startTime'', py_or (get p ''startTime'') (get p ''startedAt'')),
                                 (''endTime'', py_or (get p ''endTime'') (get p ''endedAt'')),
                                 (''raw'', JDict p)], c1, tr1)
                       | _ \<Rightarrow> (Inl AttributeError, c1, tr1)))))"

definition compact_item :: "json \<Rightarrow> exn + json" where
  "compact_item it =
     (case it of
        JDict d \<Rightarrow> Inr (JDict [(''severity'', get d ''severity''), (''type'', get d ''type''),
                                (''row'', get d ''row''),
                                (''message'', py_or (get d ''message'') (py_or (get d ''details'') (get d ''text'')))])
      | _ \<Rightarrow> Inl AttributeError)"

definition planning_get_job_details ::
  "env \<Rightarrow> exn + Config_copilot \<Rightarrow> json \<Rightarrow> int \<Rightarrow> int \<Rightarrow> string option \<Rightarrow> string option
     \<Rightarrow> string option \<Rightarrow> TokenCache \<Rightarrow> event list \<Rightarrow> (exn + dict) \<times> TokenCache \<times> event list" where
  "planning_get_job_details E load_config job_id offset limit application api_version key c tr =
     (case load_config of
        Inl e \<Rightarrow> (Inl e, c, tr)
      | Inr cfg \<Rightarrow>
          (case enforce_client_key cfg key of
             Some deny \<Rightarrow> (Inr deny, c, tr)
           | None \<Rightarrow>
               (case pbcs_request E cfg ''GET''
                       (jobs_url cfg application api_version @ ''/'' @ py_str job_id @ ''/details'')
                       (JDict [(''offset'', JNum offset), (''limit'', JNum limit)]) JNull c tr of
                  (Inl e, c1, tr1) \<Rightarrow> (Inl e, c1, tr1)
                | (Inr res, c1, tr1) \<Rightarrow>
                    if \<not> truthy (get res ''ok'') then (Inr res, c1, tr1)
                    else
                      (case get res ''response'' of
                         JDict p \<Rightarrow>
                           (case py_iter (py_or (get p ''items'') (py_or (get p ''details'')
                                            (py_or (get p ''messages'') (JList [])))) of
                              Inl e \<Rightarrow> (Inl e, c1, tr1)
                            | Inr items \<Rightarrow>
                                (case map_exn compact_item items of
                                   Inl e \<Rightarrow> (Inl e, c1, tr1)
                                 | Inr compact_items \<Rightarrow>
                                     (Inr [(''ok'', JBool True), (''jobId'', job_id),
                                           (''offset'', JNum offset), (''limit'', JNum limit),
                                           (''count'', JNum (int (length compact_items))),
                                           (''items'', JList compact_items)], c1, tr1)))
                       | _ \<Rightarrow> (Inl AttributeError, c1, tr1)))))"

text \<open>
  The polling loop of \<^verbatim>\<open>planning_run_job_and_wait\<close>. One pass of its body, up to the
  sleep, is \<open>poll_step\<close>: it leaves the loop (by \<^verbatim>\<open>return\<close>, by \<^verbatim>\<open>break\<close> or by an
  exception) or goes on with the polls so far. The loop itself may run for ever (\<open>None\<close>).
\<close>

datatype loop_step = Exit "exn + loop_exit" | Continue "json list"

definition poll_step ::
  "env \<Rightarrow> exn + Config_copilot \<Rightarrow> json \<Rightarrow> string option \<Rightarrow> string option \<Rightarrow> string option
     \<Rightarrow> int \<Rightarrow> real \<Rightarrow> json list \<Rightarrow> TokenCache \<Rightarrow> event list
     \<Rightarrow> loop_step \<times> TokenCache \<times> event list" where
  "poll_step E load_config job_id application api_version key timeout_seconds start polls c tr =
     (case planning_get_job_status E load_config job_id application api_version key c tr of
        (Inl e, c1, tr1) \<Rightarrow> (Exit (Inl e), c1, tr1)
      | (Inr st, c1, tr1) \<Rightarrow>
          if \<not> truthy (get st ''ok'') then
            (Exit (Inr (Return [(''ok'', JBool False), (''error'', JStr ''POLL_FAILED''),
                                (''jobId'', job_id), (''status_call'', JDict st)])), c1, tr1)
          else
            (let tr2 = tr1 @ [Time];
                 polls' = polls @ [JDict [(''ts'', JNum (int_of_time (clock E tr2))),
                                          (''status'', get st ''status''),
                                          (''percentComplete'', get st ''percentComplete'')]]
             in case terminal (get st ''status'') of
                  Inl e \<Rightarrow> (Exit (Inl e), c1, tr2)
                | Inr b \<Rightarrow>
                    if b then (Exit (Inr (Break polls' st)), c1, tr2)
                    else
                      (let tr3 = tr2 @ [Time] in
                       if clock E tr3 - start \<ge> of_int timeout_seconds then
                         (Exit (Inr (Return [(''ok'', JBool False), (''error'', JStr ''TIMEOUT''),
                                 (''message'', JStr (''Job did not complete within ''
                                     @ str_int timeout_seconds @ ''s'')),
                                 (''jobId'', job_id), (''lastStatus'', JDict st),
                                 (''polls'', JList polls')])), c1, tr3)
                       else (Continue polls', c1, tr3))))"

partial_function (option) run_loop ::
  "env \<Rightarrow> exn + Config_copilot \<Rightarrow> json \<Rightarrow> string option \<Rightarrow> string option \<Rightarrow> string option
     \<Rightarrow> int \<Rightarrow> int \<Rightarrow> real \<Rightarrow> json list \<Rightarrow> TokenCache \<Rightarrow> event list
     \<Rightarrow> ((exn + loop_exit) \<times> TokenCache \<times> event list) option" where
  "run_loop E load_config job_id application api_version key poll_interval_seconds timeout_seconds
       start polls c tr =
     (case poll_step E load_config job_id application api_version key timeout_seconds start polls c tr of
        (Exit r, c1, tr1) \<Rightarrow> Some (r, c1, tr1)
      | (Continue polls', c1, tr1) \<Rightarrow>
          run_loop E load_config job_id application api_version key poll_interval_seconds
            timeout_seconds start polls' c1 (tr1 @ [Sleep (max 1 poll_interval_seconds)]))"

text \<open>
  The state of that loop (polls so far, token cache, trace) after \<open>n\<close> passes of its body
  that all went on to the sleep; \<open>None\<close> if one of them left the loop.
\<close>

fun after_polls ::
  "nat \<Rightarrow> env \<Rightarrow> exn + Config_copilot \<Rightarrow> json \<Rightarrow> string option \<Rightarrow> string option \<Rightarrow> string option
     \<Rightarrow> int \<Rightarrow> int \<Rightarrow> real \<Rightarrow> json list \<Rightarrow> TokenCache \<Rightarrow> event list
     \<Rightarrow> (json list \<times> TokenCache \<times> event list) option" where
  "after_polls 0 E load_config job_id application api_version key poll_interval_seconds
       timeout_seconds start polls c tr = Some (polls, c, tr)"
| "after_polls (Suc n) E load_config job_id application api_version key poll_interval_seconds
       timeout_seconds start polls c tr =
     (case poll_step E load_config job_id application api_version key timeout_seconds start polls c tr of
        (Exit r, c1, tr1) \<Rightarrow> None
      | (Continue polls', c1, tr1) \<Rightarrow>
          after_polls n E load_config job_id application api_version key poll_interval_seconds
            timeout_seconds start polls' c1 (tr1 @ [Sleep (max 1 poll_interval_seconds)]))"

text \<open>\<^verbatim>\<open>(x.get("severity") or "").upper()\<close> and the two filters over the detail items.\<close>

definition severity_upper :: "json \<Rightarrow> exn + string" where
  "severity_upper x =
     (case x of
        JDict d \<Rightarrow> (case py_or (get d ''severity'') (JStr []) of
                       JStr s \<Rightarrow> Inr (upper s) | _ \<Rightarrow> Inl AttributeError)
      | _ \<Rightarrow> Inl AttributeError)"

fun filter_severity :: "string list \<Rightarrow> json list \<Rightarrow> exn + json list" where
  "filter_severity sev [] = Inr []"
| "filter_severity sev (x # xs) =
     (case severity_upper x of
        Inl e \<Rightarrow> Inl e
      | Inr s \<Rightarrow> (case filter_severity sev xs of
                    Inl e \<Rightarrow> Inl e
                  | Inr ys \<Rightarrow> Inr (if s \<in> set sev then x # ys else ys)))"

definition run_report ::
  "dict \<Rightarrow> json \<Rightarrow> string \<Rightarrow> string \<Rightarrow> json list \<Rightarrow> dict \<Rightarrow> dict \<Rightarrow> exn + dict" where
  "run_report exec_res job_id job_type job_name polls last_status details =
     (let items = (if truthy (get details ''ok'')
                   then (case get details ''items'' of JList xs \<Rightarrow> xs | _ \<Rightarrow> [])
                   else [])
      in case filter_severity [''ERROR''] items of
           Inl e \<Rightarrow> Inl e
         | Inr errors \<Rightarrow>
             (case filter_severity [''WARN'', ''WARNING''] items of
                Inl e \<Rightarrow> Inl e
              | Inr warns \<Rightarrow>
                  Inr [(''ok'', JBool True),
                       (''job'', JDict [(''jobId'', job_id), (''jobType'', JStr job_type),
                                        (''jobName'', JStr job_name),
                                        (''finalStatus'', get last_status ''status''),
                                        (''pollCount'', JNum (int (length polls))),
                                        (''polls'', JList polls)]),
                       (''summary'', JDict [(''errors'', JList (take 25 errors)),
                                            (''warnings'', JList (take 25 warns)),
                                            (''detailsSample'', JList (take 25 items))]),
                       (''raw'', JDict [(''execute'', JDict exec_res),
                                        (''finalStatus'', JDict last_status),
                                        (''details'', JDict details)])]))"

definition planning_run_job_and_wait ::
  "env \<Rightarrow> exn + Config_copilot \<Rightarrow> string \<Rightarrow> string \<Rightarrow> json \<Rightarrow> int \<Rightarrow> int \<Rightarrow> string option
     \<Rightarrow> string option \<Rightarrow> int \<Rightarrow> int \<Rightarrow> string option \<Rightarrow> TokenCache \<Rightarrow> event list
     \<Rightarrow> ((exn + dict) \<times> TokenCache \<times> event list) option" where
  "planning_run_job_and_wait E load_config job_type job_name parameters poll_interval_seconds
       timeout_seconds application api_version details_offset details_limit key c tr =
     (case planning_execute_job E load_config job_type job_name parameters application api_version
             key c tr of
        (Inl e, c0, tr0) \<Rightarrow> Some (Inl e, c0, tr0)
      | (Inr exec_res, c0, tr0) \<Rightarrow>
          if \<not> truthy (get exec_res ''ok'') then Some (Inr exec_res, c0, tr0)
          else
            (let job_id = get exec_res ''jobId'' in
             if \<not> truthy job_id then
               Some (Inr [(''ok'', JBool False), (''error'', JStr ''NO_JOB_ID''),
                          (''message'', JStr ''Execute did not return jobId''),
                          (''raw'', JDict exec_res)], c0, tr0)
             else
               (let tr1 = tr0 @ [Time]; start = clock E tr1 in
                case run_loop E load_config job_id application api_version key
                       poll_interval_seconds timeout_seconds start [] c0 tr1 of
                  None \<Rightarrow> None
                | Some (Inl e, c2, tr2) \<Rightarrow> Some (Inl e, c2, tr2)
                | Some (Inr (Return res), c2, tr2) \<Rightarrow> Some (Inr res, c2, tr2)
                | Some (Inr (Break polls last_status), c2, tr2) \<Rightarrow>
                    (case planning_get_job_details E load_config job_id details_offset details_limit
                            application api_version key c2 tr2 of
                       (Inl e, c3, tr3) \<Rightarrow> Some (Inl e, c3, tr3)
                     | (Inr details, c3, tr3) \<Rightarrow>
                         (case run_report exec_res job_id job_type job_name polls last_status details of
                            Inl e \<Rightarrow> Some (Inl e, c3, tr3)
                          | Inr report \<Rightarrow> Some (Inr report, c3, tr3))))))"

text \<open>
  Of all the requests made by these tools only the details fetch carries query parameters
  (\<^verbatim>\<open>offset\<close> and \<^verbatim>\<open>limit\<close>); the submission and the status polls pass \<^verbatim>\<open>params=None\<close>.
\<close>

fun details_request :: "event \<Rightarrow> bool" where
  "details_request (Request m u ps b) = (ps \<noteq> JNull)"
| "details_request _ = False"


text \<open>
  The alias lookup in the words of the specification: the candidate field names are tried
  in priority order and the first one holding a usable (truthy) value wins; with none, the
  lookup of the last name is what remains.
\<close>

fun first_of :: "string list \<Rightarrow> dict \<Rightarrow> json" where
  "first_of [] p = JNull"
| "first_of [k] p = get p k"
| "first_of (k # ks) p = (if truthy (get p k) then get p k else first_of ks p)"

subsection \<open>Sample configurations and environments\<close>

definition env_404_then_200 :: env where
  "env_404_then_200 = \<lparr> respond = (\<lambda>tr.
       if length tr = 1
       then Response \<lparr> status_code = 404, content = JsonBody (JDict [(''message'', JStr ''Not Found'')]),
                       reason = ''Not Found'' \<rparr>
       else Response \<lparr> status_code = 200, content = JsonBody (JDict [(''items'', JList [])]),
                       reason = ''OK'' \<rparr>),
     clock = (\<lambda>tr. 0), int_of_str = (\<lambda>s. None) \<rparr>"

definition cfg_dualbase_example :: Config_dualbase where
  "cfg_dualbase_example = \<lparr> service_url = ''https://h/epmcloud'', base_url = ''https://h'',
     username = ''u'', password = ''p'', verify_ssl = True \<rparr>"

definition cfg_readonly_example :: Config_readonly where
  "cfg_readonly_example = \<lparr> service_url_ro = ''https://h/epmcloud'',
     username_ro = ''u'', password_ro = ''p'', verify_ssl_ro = True \<rparr>"

definition env_status_succeeded :: env where
  "env_status_succeeded = \<lparr> respond = (\<lambda>tr.
       if length tr = 2
       then Response \<lparr> status_code = 200,
              content = JsonBody (JDict [(''status'', JStr ''Succeeded''), (''percentComplete'', JNum 100)]),
              reason = ''OK'' \<rparr>
       else Response \<lparr> status_code = 200,
              content = JsonBody (JDict [(''items'', JList [JDict [(''severity'', JStr ''ERROR''),
                           (''message'', JStr ''row 5 bad'')]])]),
              reason = ''OK'' \<rparr>),
     clock = (\<lambda>tr. real (length tr)), int_of_str = (\<lambda>s. None) \<rparr>"

definition cfg_observer_example :: Config_observer where
  "cfg_observer_example = \<lparr> base_url_ob = ''https://h'', application_ob = ''Vision'',
     api_version_ob = ''v3'', username_ob = ''u'', password_ob = ''p'', verify_ssl_ob = True \<rparr>"

definition cfg_copilot_example :: Config_copilot where
  "cfg_copilot_example = \<lparr> base_url_cp = ''https://h'', application_cp = ''Vision'',
     api_version_cp = ''v3'', verify_ssl_cp = True, auth_mode = ''basic'',
     username_cp = Some ''u'', password_cp = Some ''p'', idcs_token_url = None,
     oauth_client_id = None, oauth_client_secret = None, oauth_scope = None,
     client_api_key = None, allowlist_jobs = None \<rparr>"

definition cfg_oauth_example :: Config_copilot where
  "cfg_oauth_example = cfg_copilot_example \<lparr> auth_mode := ''oauth2'',
     idcs_token_url := Some ''https://idcs/token'', oauth_client_id := Some ''id'',
     oauth_client_secret := Some ''s'' \<rparr>"

definition empty_cache :: TokenCache where
  "empty_cache = \<lparr> token = JNull, expires_at = 0 \<rparr>"

definition env_unreachable :: env where
  "env_unreachable = \<lparr> respond = (\<lambda>tr. RequestException ''connection refused''),
     clock = (\<lambda>tr. real (length tr)), int_of_str = (\<lambda>s. None) \<rparr>"

definition env_submitted_without_id :: env where
  "env_submitted_without_id = \<lparr> respond = (\<lambda>tr.
       Response \<lparr> status_code = 200, content = JsonBody (JDict [(''status'', JStr ''Submitted'')]),
                  reason = ''OK'' \<rparr>),
     clock = (\<lambda>tr. real (length tr)), int_of_str = (\<lambda>s. None) \<rparr>"

definition env_token_negative_lifetime :: env where
  "env_token_negative_lifetime = \<lparr> respond = (\<lambda>tr.
       Response \<lparr> status_code = 200,
                  content = JsonBody (JDict [(''access_token'', JStr ''tok''), (''expires_in'', JNum (- 5))]),
                  reason = ''OK'' \<rparr>),
     clock = (\<lambda>tr. real (length tr)), int_of_str = (\<lambda>s. None) \<rparr>"

text \<open>
  A job that has succeeded when first polled, on a server whose details endpoint answers
  200 with a JSON list instead of an object.
\<close>

definition env_details_not_object :: env where
  "env_details_not_object = \<lparr> respond = (\<lambda>tr.
       if length tr = 2
       then Response \<lparr> status_code = 200,
              content = JsonBody (JDict [(''status'', JStr ''Succeeded''), (''percentComplete'', JNum 100)]),
              reason = ''OK'' \<rparr>
       else Response \<lparr> status_code = 200, content = JsonBody (JList []), reason = ''OK'' \<rparr>),
     clock = (\<lambda>tr. real (length tr)), int_of_str = (\<lambda>s. None) \<rparr>"

text \<open>
  A submission that is accepted, a first poll that finds the job running, and a network
  that is lost from then on.
\<close>

definition env_poll_lost :: env where
  "env_poll_lost = \<lparr> respond = (\<lambda>tr.
       if length tr = 1
       then Response \<lparr> status_code = 200,
              content = JsonBody (JDict [(''jobId'', JStr ''J7''), (''status'', JStr ''Submitted'')]),
              reason = ''OK'' \<rparr>
       else if length tr = 3
       then Response \<lparr> status_code = 200,
              content = JsonBody (JDict [(''status'', JStr ''Running''), (''percentComplete'', JNum 40)]),
              reason = ''OK'' \<rparr>
       else RequestException ''connection reset''),
     clock = (\<lambda>tr. real (length tr)), int_of_str = (\<lambda>s. None) \<rparr>"

section \<open>Properties\<close>

subsection \<open>Redaction\<close>








subsection \<open>Dual-base resolution and the status tool\<close>

lemma http_get_trace: "snd (http_get E url params tr) = tr @ [Get url params]"
  by (simp add: http_get_def Let_def split: outcome.splits json.splits)

lemma http_get_error_code:
  "http_get E url params tr = (Inr r, tr') \<Longrightarrow>
     get r ''error'' = JNull \<or> get r ''error'' = JStr ''NETWORK_ERROR'' \<or> get r ''error'' = JStr ''HTTP_ERROR''"
  by (auto simp: http_get_def Let_def get_def split: outcome.splits json.splits if_splits)

lemma get_update_other: "k \<noteq> k' \<Longrightarrow> get (AList.update k v d) k' = get d k'"
  by (simp add: get_def update_conv')

lemma epm_get_trace: "snd (epm_get E cfg path params tr) = tr @ [Get (service_url_ro cfg @ path) params]"
  by (simp add: epm_get_def Let_def split: outcome.splits json.splits)

lemma epm_get_error_code:
  "epm_get E cfg path params tr = (Inr r, tr') \<Longrightarrow>
     get r ''error'' = JNull \<or> get r ''error'' = JStr ''NETWORK_ERROR'' \<or> get r ''error'' = JStr ''HTTP_ERROR''"
  by (auto simp: epm_get_def Let_def get_def split: outcome.splits json.splits if_splits)

lemma http_get_fst_trace: "http_get E url params tr = (x, tr') \<Longrightarrow> tr' = tr @ [Get url params]"
  using http_get_trace [of E url params tr] by simp

lemma dualbase_error_code:
  assumes "epm_get_dualbase E cfg path params tr = (Inr r, tr')"
  shows "get r ''error'' = JNull \<or> get r ''error'' = JStr ''NETWORK_ERROR'' \<or> get r ''error'' = JStr ''HTTP_ERROR''"
  using assms
  by (auto simp: epm_get_dualbase_def Let_def get_update_other
      split: prod.splits sum.splits if_splits dest: http_get_error_code)
     (simp add: get_def)

lemma dualbase_first_event:
  "take (Suc (length tr)) (snd (epm_get_dualbase E cfg path params tr)) = tr @ [Get (base_url cfg @ path) params]"
  by (auto simp: epm_get_dualbase_def Let_def split: prod.splits sum.splits dest!: http_get_fst_trace)

text \<open>
  C3. Whenever the GET against the canonical base returns a result \<open>r1\<close>: if \<open>r1\<close> is ok,
  it is returned tagged \<^verbatim>\<open>base_used = "base_url"\<close> and the only request made is the one to the
  canonical base; if \<open>r1\<close> is a failure whose status code is not 404 (a network error carries
  none), \<open>r1\<close> is returned as it is, again after that single request; if \<open>r1\<close> is a failure with
  status code 404, exactly one more request is made, for the same path under \<^verbatim>\<open>/epmcloud\<close>,
  and its result \<open>r2\<close> is returned tagged \<^verbatim>\<open>base_used = "epmcloud_context"\<close> when ok, and
  otherwise the result is \<^verbatim>\<open>{ok: false, attempts: [r1, r2]}\<close>.
\<close>

theorem dualbase_resolution:
  assumes "http_get E (base_url cfg @ path) params tr = (Inr r1, tr1)"
  shows "(truthy (get r1 ''ok'') \<longrightarrow>
            epm_get_dualbase E cfg path params tr =
              (Inr (AList.update ''base_used'' (JStr ''base_url'') r1), tr @ [Get (base_url cfg @ path) params]))
       \<and> (\<not> truthy (get r1 ''ok'') \<and> get r1 ''status_code'' \<noteq> JNum 404 \<longrightarrow>
            epm_get_dualbase E cfg path params tr = (Inr r1, tr @ [Get (base_url cfg @ path) params]))
       \<and> (\<not> truthy (get r1 ''ok'') \<and> get r1 ''status_code'' = JNum 404 \<longrightarrow>
            snd (epm_get_dualbase E cfg path params tr) =
              tr @ [Get (base_url cfg @ path) params, Get (base_url cfg @ ''/epmcloud'' @ path) params]
            \<and> (\<forall>r2 tr2. http_get E (base_url cfg @ ''/epmcloud'' @ path) params tr1 = (Inr r2, tr2) \<longrightarrow>
                 fst (epm_get_dualbase E cfg path params tr) =
                   (if truthy (get r2 ''ok'')
                    then Inr (AList.update ''base_used'' (JStr ''epmcloud_context'') r2)
                    else Inr [(''ok'', JBool False), (''attempts'', JList [JDict r1, JDict r2])])))"
  using assms http_get_fst_trace [OF assms]
  by (auto simp: epm_get_dualbase_def Let_def split: prod.splits sum.splits dest!: http_get_fst_trace)

theorem dualbase_resolution_witness:
  "http_get env_404_then_200 (base_url cfg_dualbase_example @ ''/x'') JNull [] =
     (Inr [(''ok'', JBool False), (''error'', JStr ''HTTP_ERROR''), (''status_code'', JNum 404),
           (''message'', JStr ''Not Found''),
           (''response'', JDict [(''message'', JStr ''Not Found'')]), (''url'', JStr ''https://h/x'')],
      [Get ''https://h/x'' JNull])
   \<and> epm_get_dualbase env_404_then_200 cfg_dualbase_example ''/x'' JNull [] =
     (Inr [(''ok'', JBool True), (''status_code'', JNum 200),
           (''response'', JDict [(''items'', JList [])]), (''url'', JStr ''https://h/epmcloud/x''),
           (''base_used'', JStr ''epmcloud_context'')],
      [Get ''https://h/x'' JNull, Get ''https://h/epmcloud/x'' JNull])"
proof -
  let ?r1 = "[(''ok'', JBool False), (''error'', JStr ''HTTP_ERROR''), (''status_code'', JNum 404),
           (''message'', JStr ''Not Found''),
           (''response'', JDict [(''message'', JStr ''Not Found'')]), (''url'', JStr ''https://h/x'')]"
  let ?r2 = "[(''ok'', JBool True), (''status_code'', JNum 200),
           (''response'', JDict [(''items'', JList [])]), (''url'', JStr ''https://h/epmcloud/x'')]"
  have h1: "http_get env_404_then_200 (base_url cfg_dualbase_example @ ''/x'') JNull [] =
      (Inr ?r1, [Get ''https://h/x'' JNull])"
    by (simp add: http_get_def env_404_then_200_def cfg_dualbase_example_def payload_of_def
        py_or_def get_def lower_def lower_char_def upper_letters_def lower_letters_def REDACT_KEYS_def)
  have h2: "http_get env_404_then_200 (base_url cfg_dualbase_example @ ''/epmcloud'' @ ''/x'') JNull
      [Get ''https://h/x'' JNull] = (Inr ?r2, [Get ''https://h/x'' JNull, Get ''https://h/epmcloud/x'' JNull])"
    by (simp add: http_get_def env_404_then_200_def cfg_dualbase_example_def payload_of_def
        py_or_def get_def lower_def lower_char_def upper_letters_def lower_letters_def REDACT_KEYS_def)
  have h3: "\<not> truthy (get ?r1 ''ok'') \<and> get ?r1 ''status_code'' = JNum 404 \<and> truthy (get ?r2 ''ok'')"
    by (simp add: get_def)
  from dualbase_resolution [OF h1] h2 h3
  have "snd (epm_get_dualbase env_404_then_200 cfg_dualbase_example ''/x'' JNull []) =
          [Get ''https://h/x'' JNull, Get ''https://h/epmcloud/x'' JNull]
      \<and> fst (epm_get_dualbase env_404_then_200 cfg_dualbase_example ''/x'' JNull []) =
          Inr (AList.update ''base_used'' (JStr ''epmcloud_context'') ?r2)"
    by (simp add: cfg_dualbase_example_def)
  then have "epm_get_dualbase env_404_then_200 cfg_dualbase_example ''/x'' JNull [] =
     (Inr (AList.update ''base_used'' (JStr ''epmcloud_context'') ?r2),
      [Get ''https://h/x'' JNull, Get ''https://h/epmcloud/x'' JNull])"
    by (metis prod.collapse)
  with h1 show ?thesis by simp
qed

text \<open>
  C10. With a configuration loaded, for every operation string and job id:
  \<^verbatim>\<open>epm_get_status\<close> (in both servers) returns the \<^verbatim>\<open>INVALID_OPERATION\<close> result without any
  request exactly when the stripped, lowercased operation is empty or contains \<^verbatim>\<open>/\<close> or
  \<^verbatim>\<open>..\<close>; otherwise its first request is the GET of
  \<^verbatim>\<open>/interop/rest/v2/status/<operation>/<job_id>\<close> under the configured base, and what it
  returns is not the \<^verbatim>\<open>INVALID_OPERATION\<close> result.
\<close>

theorem epm_get_status_validation:
  assumes "load_config = Inr cfg" "load_config_ro = Inr cfg_ro"
  shows "(let op = lower (strip operation); path = ''/interop/rest/v2/status/'' @ op @ ''/'' @ job_id in
     if op = [] \<or> py_in ''/'' op \<or> py_in ''..'' op
     then epm_get_status E load_config operation job_id tr = (Inr INVALID_OPERATION, tr)
        \<and> epm_get_status_ro E load_config_ro operation job_id tr = (Inr INVALID_OPERATION, tr)
     else epm_get_status E load_config operation job_id tr = epm_get_dualbase E cfg path JNull tr
        \<and> take (Suc (length tr)) (snd (epm_get_status E load_config operation job_id tr)) =
            tr @ [Get (base_url cfg @ path) JNull]
        \<and> fst (epm_get_status E load_config operation job_id tr) \<noteq> Inr INVALID_OPERATION
        \<and> epm_get_status_ro E load_config_ro operation job_id tr = epm_get E cfg_ro path JNull tr
        \<and> snd (epm_get_status_ro E load_config_ro operation job_id tr) =
            tr @ [Get (service_url_ro cfg_ro @ path) JNull]
        \<and> fst (epm_get_status_ro E load_config_ro operation job_id tr) \<noteq> Inr INVALID_OPERATION)"
proof -
  have inv: "get INVALID_OPERATION ''error'' = JStr ''INVALID_OPERATION''"
    by (simp add: INVALID_OPERATION_def get_def)
  have a: "fst (epm_get_dualbase E cfg p JNull tr) \<noteq> Inr INVALID_OPERATION" for p
  proof
    assume "fst (epm_get_dualbase E cfg p JNull tr) = Inr INVALID_OPERATION"
    then have "epm_get_dualbase E cfg p JNull tr = (Inr INVALID_OPERATION, snd (epm_get_dualbase E cfg p JNull tr))"
      by (metis prod.collapse)
    from dualbase_error_code [OF this] inv show False by simp
  qed
  have b: "fst (epm_get E cfg_ro p JNull tr) \<noteq> Inr INVALID_OPERATION" for p
  proof
    assume "fst (epm_get E cfg_ro p JNull tr) = Inr INVALID_OPERATION"
    then have "epm_get E cfg_ro p JNull tr = (Inr INVALID_OPERATION, snd (epm_get E cfg_ro p JNull tr))"
      by (metis prod.collapse)
    from epm_get_error_code [OF this] inv show False by simp
  qed
  show ?thesis
    using assms a b
    by (simp add: epm_get_status_def epm_get_status_ro_def Let_def dualbase_first_event epm_get_trace)
qed

theorem epm_get_status_validation_witness:
  "epm_get_status env_404_then_200 (Inr cfg_dualbase_example) '' Down/Load '' ''7'' [] = (Inr INVALID_OPERATION, [])
   \<and> epm_get_status_ro env_404_then_200 (Inr cfg_readonly_example) '' Down/Load '' ''7'' [] = (Inr INVALID_OPERATION, [])
   \<and> epm_get_status env_404_then_200 (Inr cfg_dualbase_example) [CHR 0xA0, CHR 0x85] ''7'' []
       = (Inr INVALID_OPERATION, [])
   \<and> epm_get_status_ro env_404_then_200 (Inr cfg_readonly_example) [CHR 0xA0, CHR 0x85] ''7'' []
       = (Inr INVALID_OPERATION, [])
   \<and> take (Suc 0) (snd (epm_get_status env_404_then_200 (Inr cfg_dualbase_example) '' DownLoad '' ''7'' []))
       = [Get (base_url cfg_dualbase_example @ ''/interop/rest/v2/status/download/7'') JNull]
   \<and> snd (epm_get_status_ro env_404_then_200 (Inr cfg_readonly_example) '' DownLoad '' ''7'' [])
       = [Get (service_url_ro cfg_readonly_example @ ''/interop/rest/v2/status/download/7'') JNull]"
proof -
  have op: "lower (strip '' Down/Load '') = ''down/load''"
    by (simp add: strip_def isspace_def lower_def lower_char_def upper_letters_def lower_letters_def)
  have bad: "py_in ''/'' ''down/load''" by simp
  have op2: "lower (strip [CHR 0xA0, CHR 0x85]) = []"
    by (simp add: strip_def isspace_def lower_def)
  have op3: "lower (strip '' DownLoad '') = ''download''"
    by (simp add: strip_def isspace_def lower_def lower_char_def upper_letters_def lower_letters_def)
  have good: "\<not> py_in ''/'' ''download''" "\<not> py_in ''..'' ''download''" by simp_all
  from epm_get_status_validation [of "Inr cfg_dualbase_example" cfg_dualbase_example
      "Inr cfg_readonly_example" cfg_readonly_example "'' Down/Load ''" "''7''" env_404_then_200 "[]"]
  have 1: "epm_get_status env_404_then_200 (Inr cfg_dualbase_example) '' Down/Load '' ''7'' [] = (Inr INVALID_OPERATION, [])
   \<and> epm_get_status_ro env_404_then_200 (Inr cfg_readonly_example) '' Down/Load '' ''7'' [] = (Inr INVALID_OPERATION, [])"
    unfolding Let_def op using bad by simp
  from epm_get_status_validation [of "Inr cfg_dualbase_example" cfg_dualbase_example
      "Inr cfg_readonly_example" cfg_readonly_example "[CHR 0xA0, CHR 0x85]" "''7''" env_404_then_200 "[]"]
  have 2: "epm_get_status env_404_then_200 (Inr cfg_dualbase_example) [CHR 0xA0, CHR 0x85] ''7'' []
       = (Inr INVALID_OPERATION, [])
   \<and> epm_get_status_ro env_404_then_200 (Inr cfg_readonly_example) [CHR 0xA0, CHR 0x85] ''7'' []
       = (Inr INVALID_OPERATION, [])"
    unfolding Let_def op2 by simp
  have c: "(if ''download'' = [] \<or> py_in ''/'' ''download'' \<or> py_in ''..'' ''download'' then P else Q) = Q"
    for P Q :: bool
    using good by simp
  from epm_get_status_validation [of "Inr cfg_dualbase_example" cfg_dualbase_example
      "Inr cfg_readonly_example" cfg_readonly_example "'' DownLoad ''" "''7''" env_404_then_200 "[]",
      unfolded Let_def op3 c, OF refl refl, simplified]
  have 3: "take (Suc 0) (snd (epm_get_status env_404_then_200 (Inr cfg_dualbase_example) '' DownLoad '' ''7'' []))
       = [Get (base_url cfg_dualbase_example @ ''/interop/rest/v2/status/download/7'') JNull]
   \<and> snd (epm_get_status_ro env_404_then_200 (Inr cfg_readonly_example) '' DownLoad '' ''7'' [])
       = [Get (service_url_ro cfg_readonly_example @ ''/interop/rest/v2/status/download/7'') JNull]"
    by blast
  from 1 2 3 show ?thesis by simp
qed

subsection \<open>Watching a job\<close>

lemma pbcs_get_trace:
  "pbcs_get E cfg path params tr = (x, tr') \<Longrightarrow> tr' = tr @ [Get (base_url_ob cfg @ path) params]"
  by (auto simp: pbcs_get_def Let_def split: outcome.splits json.splits if_splits)

lemma status_ro_trace:
  "planning_get_job_status_ro E (Inr cfg) job_id application api_version tr = (x, tr') \<Longrightarrow>
     tr' = tr @ [Get (base_url_ob cfg @ job_url_ro cfg application api_version job_id) JNull]"
  by (auto simp: planning_get_job_status_ro_def split: prod.splits sum.splits json.splits if_splits
      dest!: pbcs_get_trace)

lemma details_ro_trace:
  "planning_get_job_details_ro E (Inr cfg) job_id offset limit application api_version tr = (x, tr') \<Longrightarrow>
     tr' = tr @ [Get (base_url_ob cfg @ job_url_ro cfg application api_version job_id @ ''/details'')
                     (JDict [(''offset'', JNum offset), (''limit'', JNum limit)])]"
  by (auto simp: planning_get_job_details_ro_def split: prod.splits sum.splits json.splits if_splits
      dest!: pbcs_get_trace)

text \<open>
  C6, as stated, fails: with \<^verbatim>\<open>include_details\<close> at its default, a first poll that is
  terminal and a details endpoint that answers 200 with a body that is not a JSON object
  make \<^verbatim>\<open>planning_get_job_details\<close> raise (\<^verbatim>\<open>res["response"].get\<close> on a list), and
  \<^verbatim>\<open>planning_watch_job\<close> returns no result: the exception leaves it.
\<close>

theorem watch_details_raise_counterexample:
  "planning_get_job_status_ro env_details_not_object (Inr cfg_observer_example) ''42'' None None [Time] =
     (Inr [(''ok'', JBool True), (''jobId'', JStr ''42''), (''status'', JStr ''Succeeded''),
           (''percentComplete'', JNum 100), (''startTime'', JNull), (''endTime'', JNull),
           (''raw'', JDict [(''status'', JStr ''Succeeded''), (''percentComplete'', JNum 100)])],
      [Time, Get ''https://h/HyperionPlanning/rest/v3/applications/Vision/jobs/42'' JNull])
   \<and> terminal (JStr ''Succeeded'') = Inr True
   \<and> planning_watch_job env_details_not_object (Inr cfg_observer_example) ''42'' 10 600 True 0 200
        None None []
      = Some (Inl AttributeError,
              [Time, Get ''https://h/HyperionPlanning/rest/v3/applications/Vision/jobs/42'' JNull, Time,
               Get ''https://h/HyperionPlanning/rest/v3/applications/Vision/jobs/42/details''
                   (JDict [(''offset'', JNum 0), (''limit'', JNum 200)])])"
proof -
  let ?st = "[(''ok'', JBool True), (''jobId'', JStr ''42''), (''status'', JStr ''Succeeded''),
           (''percentComplete'', JNum 100), (''startTime'', JNull), (''endTime'', JNull),
           (''raw'', JDict [(''status'', JStr ''Succeeded''), (''percentComplete'', JNum 100)])]"
  let ?tr1 = "[Time, Get ''https://h/HyperionPlanning/rest/v3/applications/Vision/jobs/42'' JNull]"
  have h1: "planning_get_job_status_ro env_details_not_object (Inr cfg_observer_example) ''42'' None None
      [Time] = (Inr ?st, ?tr1)"
    by (simp add: planning_get_job_status_ro_def pbcs_get_def env_details_not_object_def
        cfg_observer_example_def job_url_ro_def str_or_def payload_of_def get_def py_or_def Let_def
        lower_def lower_char_def upper_letters_def lower_letters_def REDACT_KEYS_def)
  have h3: "terminal (JStr ''Succeeded'') = Inr True"
    by (simp add: terminal_def py_or_def upper_def upper_char_def upper_letters_def lower_letters_def)
  have ck: "clock env_details_not_object tr = real (length tr)" for tr
    by (simp add: env_details_not_object_def)
  have loop: "watch_loop env_details_not_object (Inr cfg_observer_example) ''42'' None None 10 600
      (clock env_details_not_object [Time]) [] [Time] =
      Some (Inr (Break [JDict [(''ts'', JNum 3), (''status'', JStr ''Succeeded''),
                               (''percentComplete'', JNum 100)]] ?st), ?tr1 @ [Time])"
    by (subst watch_loop.simps) (simp add: h1 h3 get_def Let_def ck int_of_time_def)
  have d: "planning_get_job_details_ro env_details_not_object (Inr cfg_observer_example) ''42'' 0 200
      None None (?tr1 @ [Time]) =
      (Inl AttributeError, ?tr1 @ [Time,
         Get ''https://h/HyperionPlanning/rest/v3/applications/Vision/jobs/42/details''
             (JDict [(''offset'', JNum 0), (''limit'', JNum 200)])])"
    by (simp add: planning_get_job_details_ro_def pbcs_get_def env_details_not_object_def
        cfg_observer_example_def job_url_ro_def str_or_def payload_of_def get_def Let_def)
  have w: "planning_watch_job env_details_not_object (Inr cfg_observer_example) ''42'' 10 600 True 0 200
        None None [] = Some (Inl AttributeError, ?tr1 @ [Time,
         Get ''https://h/HyperionPlanning/rest/v3/applications/Vision/jobs/42/details''
             (JDict [(''offset'', JNum 0), (''limit'', JNum 200)])])"
    using loop d by (simp add: planning_watch_job_def Let_def)
  from h1 h3 w show ?thesis by simp
qed

text \<open>
  C6, amended. If the first status poll of \<^verbatim>\<open>planning_watch_job\<close> is ok and its status is,
  ignoring case, one of SUCCEEDED, FAILED, ERROR, CANCELED, CANCELLED, then the watch ends
  at once: the calls it makes are the reading of the start time, that one status poll, the
  reading of the poll's time stamp and, if details are asked for, the one details request;
  there is no sleep and no second status poll. If no details are asked for, or if the
  details fetch returns, the watch returns an ok result whose job has that status as
  \<^verbatim>\<open>finalStatus\<close>, \<^verbatim>\<open>pollCount\<close> 1 and exactly one poll record, with what the details fetch
  returned (\<^verbatim>\<open>None\<close> if not asked for); if the details fetch raises, so does the watch.
\<close>

theorem watch_terminal_on_first_poll:
  assumes lc: "load_config = Inr cfg"
    and st: "planning_get_job_status_ro E load_config job_id application api_version (tr @ [Time]) = (Inr st, tr1)"
    and ok: "truthy (get st ''ok'')"
    and fin: "terminal (get st ''status'') = Inr True"
  shows "planning_watch_job E load_config job_id poll_interval_seconds timeout_seconds
             include_details details_offset details_limit application api_version tr
     = Some (if include_details
             then (case fst (planning_get_job_details_ro E load_config job_id details_offset
                               details_limit application api_version (tr1 @ [Time])) of
                     Inl e \<Rightarrow> Inl e
                   | Inr details \<Rightarrow>
                       Inr [(''ok'', JBool True),
                            (''job'', JDict [(''jobId'', JStr job_id), (''finalStatus'', get st ''status''),
                               (''pollCount'', JNum 1),
                               (''polls'', JList [JDict [(''ts'', JNum (int_of_time (clock E (tr1 @ [Time])))),
                                                         (''status'', get st ''status''),
                                                         (''percentComplete'', get st ''percentComplete'')]])]),
                            (''details'', JDict details)])
             else Inr [(''ok'', JBool True),
                       (''job'', JDict [(''jobId'', JStr job_id), (''finalStatus'', get st ''status''),
                          (''pollCount'', JNum 1),
                          (''polls'', JList [JDict [(''ts'', JNum (int_of_time (clock E (tr1 @ [Time])))),
                                                    (''status'', get st ''status''),
                                                    (''percentComplete'', get st ''percentComplete'')]])]),
                       (''details'', JNull)],
             tr @ [Time, Get (base_url_ob cfg @ job_url_ro cfg application api_version job_id) JNull, Time]
               @ (if include_details
                  then [Get (base_url_ob cfg @ job_url_ro cfg application api_version job_id @ ''/details'')
                            (JDict [(''offset'', JNum details_offset), (''limit'', JNum details_limit)])]
                  else []))"
proof -
  have tr1: "tr1 = tr @ [Time, Get (base_url_ob cfg @ job_url_ro cfg application api_version job_id) JNull]"
    using status_ro_trace [OF st [unfolded lc]] by simp
  have loop: "watch_loop E load_config job_id application api_version poll_interval_seconds
      timeout_seconds (clock E (tr @ [Time])) [] (tr @ [Time]) =
      Some (Inr (Break [JDict [(''ts'', JNum (int_of_time (clock E (tr1 @ [Time])))),
                               (''status'', get st ''status''),
                               (''percentComplete'', get st ''percentComplete'')]] st), tr1 @ [Time])"
    by (subst watch_loop.simps) (simp add: st ok fin Let_def)
  show ?thesis
  proof (cases include_details)
    case False
    then show ?thesis
      by (simp add: planning_watch_job_def Let_def loop tr1)
  next
    case True
    obtain x tr2 where d: "planning_get_job_details_ro E load_config job_id details_offset details_limit
                      application api_version (tr1 @ [Time]) = (x, tr2)"
      by (cases "planning_get_job_details_ro E load_config job_id details_offset details_limit
                      application api_version (tr1 @ [Time])") auto
    from details_ro_trace [OF d [unfolded lc]] have tr2: "tr2 = tr1 @ [Time,
        Get (base_url_ob cfg @ job_url_ro cfg application api_version job_id @ ''/details'')
                        (JDict [(''offset'', JNum details_offset), (''limit'', JNum details_limit)])]"
      by simp
    show ?thesis
      using True d tr2 tr1
      by (cases x) (simp_all add: planning_watch_job_def Let_def loop)
  qed
qed

theorem watch_terminal_on_first_poll_witness:
  "planning_get_job_status_ro env_status_succeeded (Inr cfg_observer_example) ''42'' None None ([] @ [Time]) =
     (Inr [(''ok'', JBool True), (''jobId'', JStr ''42''), (''status'', JStr ''Succeeded''),
           (''percentComplete'', JNum 100), (''startTime'', JNull), (''endTime'', JNull),
           (''raw'', JDict [(''status'', JStr ''Succeeded''), (''percentComplete'', JNum 100)])],
      [Time, Get ''https://h/HyperionPlanning/rest/v3/applications/Vision/jobs/42'' JNull])
   \<and> terminal (JStr ''Succeeded'') = Inr True
   \<and> planning_watch_job env_status_succeeded (Inr cfg_observer_example) ''42'' 10 600 True 0 200
        None None []
      = Some (Inr [(''ok'', JBool True),
                   (''job'', JDict [(''jobId'', JStr ''42''), (''finalStatus'', JStr ''Succeeded''),
                      (''pollCount'', JNum 1),
                      (''polls'', JList [JDict [(''ts'', JNum 3), (''status'', JStr ''Succeeded''),
                                                (''percentComplete'', JNum 100)]])]),
                   (''details'', JDict [(''ok'', JBool True), (''jobId'', JStr ''42''),
                      (''offset'', JNum 0), (''limit'', JNum 200), (''count'', JNum 1),
                      (''items'', JList [JDict [(''severity'', JStr ''ERROR''), (''type'', JNull),
                                                (''row'', JNull), (''message'', JStr ''row 5 bad'')]])])],
              [Time, Get ''https://h/HyperionPlanning/rest/v3/applications/Vision/jobs/42'' JNull, Time,
               Get ''https://h/HyperionPlanning/rest/v3/applications/Vision/jobs/42/details''
                   (JDict [(''offset'', JNum 0), (''limit'', JNum 200)])])"
proof -
  let ?st = "[(''ok'', JBool True), (''jobId'', JStr ''42''), (''status'', JStr ''Succeeded''),
           (''percentComplete'', JNum 100), (''startTime'', JNull), (''endTime'', JNull),
           (''raw'', JDict [(''status'', JStr ''Succeeded''), (''percentComplete'', JNum 100)])]"
  let ?tr1 = "[Time, Get ''https://h/HyperionPlanning/rest/v3/applications/Vision/jobs/42'' JNull]"
  have h1: "planning_get_job_status_ro env_status_succeeded (Inr cfg_observer_example) ''42'' None None
      ([] @ [Time]) = (Inr ?st, ?tr1)"
    by (simp add: planning_get_job_status_ro_def pbcs_get_def env_status_succeeded_def
        cfg_observer_example_def job_url_ro_def str_or_def payload_of_def get_def py_or_def Let_def
        lower_def lower_char_def upper_letters_def lower_letters_def REDACT_KEYS_def)
  have h2: "truthy (get ?st ''ok'')" by (simp add: get_def)
  have h3: "terminal (JStr ''Succeeded'') = Inr True"
    by (simp add: terminal_def py_or_def upper_def upper_char_def upper_letters_def lower_letters_def)
  have h3': "terminal (get ?st ''status'') = Inr True" using h3 by (simp add: get_def)
  have d: "fst (planning_get_job_details_ro env_status_succeeded (Inr cfg_observer_example) ''42'' 0 200
      None None (?tr1 @ [Time])) =
      Inr [(''ok'', JBool True), (''jobId'', JStr ''42''),
           (''offset'', JNum 0), (''limit'', JNum 200), (''count'', JNum 1),
           (''items'', JList [JDict [(''severity'', JStr ''ERROR''), (''type'', JNull),
                                     (''row'', JNull), (''message'', JStr ''row 5 bad'')]])]"
    by (simp add: planning_get_job_details_ro_def pbcs_get_def env_status_succeeded_def
        cfg_observer_example_def job_url_ro_def str_or_def payload_of_def get_def py_or_def Let_def
        compact_ro_def py_iter.simps
        lower_def lower_char_def upper_letters_def lower_letters_def REDACT_KEYS_def)
  have ck: "clock env_status_succeeded tr = real (length tr)" for tr
    by (simp add: env_status_succeeded_def)
  from watch_terminal_on_first_poll [OF refl h1 h2 h3', of 10 600 True 0 200]
  have "planning_watch_job env_status_succeeded (Inr cfg_observer_example) ''42'' 10 600 True 0 200
        None None []
      = Some (Inr [(''ok'', JBool True),
                   (''job'', JDict [(''jobId'', JStr ''42''), (''finalStatus'', JStr ''Succeeded''),
                      (''pollCount'', JNum 1),
                      (''polls'', JList [JDict [(''ts'', JNum 3), (''status'', JStr ''Succeeded''),
                                                (''percentComplete'', JNum 100)]])]),
                   (''details'', JDict [(''ok'', JBool True), (''jobId'', JStr ''42''),
                      (''offset'', JNum 0), (''limit'', JNum 200), (''count'', JNum 1),
                      (''items'', JList [JDict [(''severity'', JStr ''ERROR''), (''type'', JNull),
                                                (''row'', JNull), (''message'', JStr ''row 5 bad'')]])])],
              [Time, Get ''https://h/HyperionPlanning/rest/v3/applications/Vision/jobs/42'' JNull, Time,
               Get ''https://h/HyperionPlanning/rest/v3/applications/Vision/jobs/42/details''
                   (JDict [(''offset'', JNum 0), (''limit'', JNum 200)])])"
    using d ck
    by (simp add: cfg_observer_example_def job_url_ro_def str_or_def get_def int_of_time_def)
  with h1 h3 show ?thesis by blast
qed

subsection \<open>The copilot server: requests made by each tool\<close>

lemma oauth_events:
  "get_oauth_token E cfg c tr = (r, c', tr') \<Longrightarrow>
     \<exists>evs. tr' = tr @ evs \<and> \<not> list_ex details_request evs"
  by (auto simp: get_oauth_token_def TokenCache_get_def TokenCache_set_def Let_def
      split: if_splits outcome.splits json.splits sum.splits prod.splits)

lemma pbcs_send_events:
  "pbcs_send E m url params body tr = (r, tr') \<Longrightarrow> tr' = tr @ [Request (upper m) url params body]"
  by (auto simp: pbcs_send_def Let_def split: outcome.splits json.splits if_splits)

lemma pbcs_request_events:
  assumes "pbcs_request E cfg m path JNull body c tr = (r, c', tr')"
  shows "\<exists>evs. tr' = tr @ evs \<and> \<not> list_ex details_request evs"
proof (cases "auth_mode cfg = ''basic''")
  case True
  with assms show ?thesis
    by (auto simp: pbcs_request_def Let_def split: prod.splits dest!: pbcs_send_events)
next
  case False
  obtain x c1 tr1 where o: "get_oauth_token E cfg c tr = (x, c1, tr1)"
    by (metis prod_cases3)
  from oauth_events [OF o] obtain evs where evs: "tr1 = tr @ evs" "\<not> list_ex details_request evs"
    by blast
  from assms False o evs show ?thesis
    by (auto simp: pbcs_request_def Let_def split: prod.splits sum.splits if_splits
        dest!: pbcs_send_events)
qed

lemma status_events:
  assumes "planning_get_job_status E load_config job_id application api_version key c tr = (r, c', tr')"
  shows "\<exists>evs. tr' = tr @ evs \<and> \<not> list_ex details_request evs"
  using assms
  by (auto simp: planning_get_job_status_def
      split: sum.splits option.splits prod.splits if_splits json.splits
      dest: pbcs_request_events)

lemma execute_events:
  assumes "planning_execute_job E load_config job_type job_name parameters application api_version
             key c tr = (r, c', tr')"
  shows "\<exists>evs. tr' = tr @ evs \<and> \<not> list_ex details_request evs"
  using assms
  by (auto simp: planning_execute_job_def Let_def
      split: sum.splits option.splits prod.splits if_splits json.splits
      dest: pbcs_request_events)

lemma poll_step_exit:
  assumes "poll_step E load_config job_id application api_version key timeout_seconds start polls c tr
             = (s, c', tr')"
  shows "(\<exists>evs. tr' = tr @ evs \<and> \<not> list_ex details_request evs)
     \<and> (case s of
          Continue ps \<Rightarrow> True
        | Exit (Inl e) \<Rightarrow> True
        | Exit (Inr (Return res)) \<Rightarrow>
            \<not> truthy (get res ''ok'')
            \<and> (\<exists>st. \<not> truthy (get st ''ok'')
                    \<and> res = [(''ok'', JBool False), (''error'', JStr ''POLL_FAILED''),
                              (''jobId'', job_id), (''status_call'', JDict st)]
                  \<or> (\<exists>ps. ps \<noteq> [] \<and> terminal (get st ''status'') = Inr False
                       \<and> res = [(''ok'', JBool False), (''error'', JStr ''TIMEOUT''),
                                 (''message'', JStr (''Job did not complete within ''
                                     @ str_int timeout_seconds @ ''s'')),
                                 (''jobId'', job_id), (''lastStatus'', JDict st),
                                 (''polls'', JList ps)]))
        | Exit (Inr (Break ps st)) \<Rightarrow>
            ps \<noteq> [] \<and> truthy (get st ''ok'') \<and> terminal (get st ''status'') = Inr True)"
proof -
  obtain x c1 tr1 where st:
    "planning_get_job_status E load_config job_id application api_version key c tr = (x, c1, tr1)"
    by (metis prod_cases3)
  from status_events [OF st] obtain evs where evs: "tr1 = tr @ evs" "\<not> list_ex details_request evs"
    by blast
  show ?thesis
  proof (cases x)
    case (Inl e)
    with assms st evs show ?thesis by (auto simp: poll_step_def)
  next
    case (Inr d)
    show ?thesis
    proof (cases "truthy (get d ''ok'')")
      case False
      with assms st evs Inr show ?thesis by (auto simp: poll_step_def get_def)
    next
      case True
      note ok = True
      show ?thesis
      proof (cases "terminal (get d ''status'')")
        case (Inl e)
        with assms st evs Inr ok show ?thesis by (auto simp: poll_step_def Let_def)
      next
        case b: (Inr b)
        show ?thesis
        proof (cases b)
          case True
          with assms st evs Inr ok b show ?thesis by (auto simp: poll_step_def Let_def)
        next
          case False
          with assms st evs Inr ok b show ?thesis
            by (cases "clock E (tr1 @ [Time, Time]) - start \<ge> of_int timeout_seconds")
               (auto simp: poll_step_def Let_def get_def)
        qed
      qed
    qed
  qed
qed

lemma run_loop_exit:
  assumes run: "run_loop E load_config job_id application api_version key poll_interval_seconds
       timeout_seconds start polls c tr = Some y"
  shows "(\<exists>evs. snd (snd y) = tr @ evs \<and> \<not> list_ex details_request evs)
   \<and> (case fst y of
        Inl e \<Rightarrow> True
      | Inr (Return res) \<Rightarrow>
          \<not> truthy (get res ''ok'')
          \<and> (\<exists>st. \<not> truthy (get st ''ok'')
                  \<and> res = [(''ok'', JBool False), (''error'', JStr ''POLL_FAILED''),
                            (''jobId'', job_id), (''status_call'', JDict st)]
                \<or> (\<exists>ps. ps \<noteq> [] \<and> terminal (get st ''status'') = Inr False
                     \<and> res = [(''ok'', JBool False), (''error'', JStr ''TIMEOUT''),
                               (''message'', JStr (''Job did not complete within ''
                                   @ str_int timeout_seconds @ ''s'')),
                               (''jobId'', job_id), (''lastStatus'', JDict st),
                               (''polls'', JList ps)]))
      | Inr (Break ps st) \<Rightarrow>
          ps \<noteq> [] \<and> truthy (get st ''ok'') \<and> terminal (get st ''status'') = Inr True)"
proof -
  let ?Q = "\<lambda>(job_id::json) (timeout_seconds::int) (tr::event list)
      (y::(exn + loop_exit) \<times> TokenCache \<times> event list).
   (\<exists>evs. snd (snd y) = tr @ evs \<and> \<not> list_ex details_request evs)
   \<and> (case fst y of
        Inl e \<Rightarrow> True
      | Inr (Return res) \<Rightarrow>
          \<not> truthy (get res ''ok'')
          \<and> (\<exists>st. \<not> truthy (get st ''ok'')
                  \<and> res = [(''ok'', JBool False), (''error'', JStr ''POLL_FAILED''),
                            (''jobId'', job_id), (''status_call'', JDict st)]
                \<or> (\<exists>ps. ps \<noteq> [] \<and> terminal (get st ''status'') = Inr False
                     \<and> res = [(''ok'', JBool False), (''error'', JStr ''TIMEOUT''),
                               (''message'', JStr (''Job did not complete within ''
                                   @ str_int timeout_seconds @ ''s'')),
                               (''jobId'', job_id), (''lastStatus'', JDict st),
                               (''polls'', JList ps)]))
      | Inr (Break ps st) \<Rightarrow>
          ps \<noteq> [] \<and> truthy (get st ''ok'') \<and> terminal (get st ''status'') = Inr True)"
  have "?Q job_id timeout_seconds tr y"
  proof (rule run_loop.raw_induct
      [where P = "\<lambda>E load_config job_id application api_version key poll_interval_seconds
         timeout_seconds start polls c tr y. ?Q job_id timeout_seconds tr y", OF _ run])
    fix f :: "env \<Rightarrow> exn + Config_copilot \<Rightarrow> json \<Rightarrow> string option \<Rightarrow> string option \<Rightarrow> string option
      \<Rightarrow> int \<Rightarrow> int \<Rightarrow> real \<Rightarrow> json list \<Rightarrow> TokenCache \<Rightarrow> event list
      \<Rightarrow> ((exn + loop_exit) \<times> TokenCache \<times> event list) option"
    fix E load_config job_id application api_version key poll_interval_seconds
       timeout_seconds start polls c tr y
    assume IH: "\<And>E load_config job_id application api_version key poll_interval_seconds
       timeout_seconds start polls c tr y.
       f E load_config job_id application api_version key poll_interval_seconds
         timeout_seconds start polls c tr = Some y \<Longrightarrow> ?Q job_id timeout_seconds tr y"
    assume B: "(case poll_step E load_config job_id application api_version key timeout_seconds
                   start polls c tr of
        (Exit r, c1, tr1) \<Rightarrow> Some (r, c1, tr1)
      | (Continue polls', c1, tr1) \<Rightarrow>
          f E load_config job_id application api_version key poll_interval_seconds
            timeout_seconds start polls' c1 (tr1 @ [Sleep (max 1 poll_interval_seconds)])) = Some y"
    obtain s c1 tr1 where ps:
      "poll_step E load_config job_id application api_version key timeout_seconds start polls c tr
         = (s, c1, tr1)"
      by (metis prod_cases3)
    note ex = poll_step_exit [OF ps]
    from ex obtain evs where evs: "tr1 = tr @ evs" "\<not> list_ex details_request evs"
      by blast
    show "?Q job_id timeout_seconds tr y"
    proof (cases s)
      case (Exit r)
      with B ps have y: "y = (r, c1, tr1)" by simp
      from ex evs show ?thesis unfolding y Exit by simp
    next
      case (Continue polls')
      with B ps
      have "f E load_config job_id application api_version key poll_interval_seconds
              timeout_seconds start polls' c1 (tr1 @ [Sleep (max 1 poll_interval_seconds)]) = Some y"
        by simp
      from IH [OF this] evs show ?thesis by (auto simp: list_ex_iff)
    qed
  qed
  then show ?thesis by simp
qed

subsection \<open>Run and wait: failures never reach the details fetch\<close>

lemma pbcs_request_prefix:
  assumes "pbcs_request E cfg m path params body c tr = (r, c', tr')"
  shows "\<exists>evs. tr' = tr @ evs"
proof (cases "auth_mode cfg = ''basic''")
  case True
  with assms show ?thesis
    by (auto simp: pbcs_request_def Let_def split: prod.splits dest!: pbcs_send_events)
next
  case False
  obtain x c1 tr1 where o: "get_oauth_token E cfg c tr = (x, c1, tr1)"
    by (metis prod_cases3)
  from oauth_events [OF o] obtain evs where evs: "tr1 = tr @ evs"
    by blast
  from assms False o evs show ?thesis
    by (auto simp: pbcs_request_def Let_def split: prod.splits sum.splits if_splits
        dest!: pbcs_send_events)
qed

lemma details_prefix:
  assumes "planning_get_job_details E load_config job_id offset limit application api_version
             key c tr = (r, c', tr')"
  shows "\<exists>evs. tr' = tr @ evs"
  using assms
  by (auto simp: planning_get_job_details_def
      split: sum.splits option.splits prod.splits if_splits json.splits
      dest: pbcs_request_prefix)

lemma run_report_ok:
  "run_report exec_res job_id job_type job_name polls last_status details = Inr report \<Longrightarrow>
     truthy (get report ''ok'')"
  by (auto simp: run_report_def Let_def get_def split: sum.splits)

lemma run_and_wait_trace:
  assumes run: "planning_run_job_and_wait E load_config job_type job_name parameters
      poll_interval_seconds timeout_seconds application api_version details_offset details_limit
      key c tr = Some (r, c', tr')"
  shows "\<exists>evs. tr' = tr @ evs
     \<and> (case r of Inl e \<Rightarrow> True
         | Inr res \<Rightarrow> truthy (get res ''ok'') \<or> \<not> list_ex details_request evs)
     \<and> (\<not> list_ex details_request evs
         \<or> (\<exists>exec_res c0 tr0 polls st c2 tr2.
               planning_execute_job E load_config job_type job_name parameters application
                 api_version key c tr = (Inr exec_res, c0, tr0)
               \<and> run_loop E load_config (get exec_res ''jobId'') application api_version key
                    poll_interval_seconds timeout_seconds (clock E (tr0 @ [Time])) [] c0
                    (tr0 @ [Time]) = Some (Inr (Break polls st), c2, tr2)
               \<and> polls \<noteq> [] \<and> terminal (get st ''status'') = Inr True))"
proof -
  obtain x c0 tr0 where ex: "planning_execute_job E load_config job_type job_name parameters
      application api_version key c tr = (x, c0, tr0)"
    by (metis prod_cases3)
  from execute_events [OF ex] obtain evs0 where evs0: "tr0 = tr @ evs0"
      "\<not> list_ex details_request evs0"
    by blast
  show ?thesis
  proof (cases x)
    case (Inl e)
    with run ex evs0 show ?thesis by (auto simp: planning_run_job_and_wait_def)
  next
    case (Inr exec_res)
    show ?thesis
    proof (cases "truthy (get exec_res ''ok'') \<and> truthy (get exec_res ''jobId'')")
      case False
      with run ex evs0 Inr show ?thesis
        by (auto simp: planning_run_job_and_wait_def Let_def get_def split: if_splits)
    next
      case True
      let ?loop = "run_loop E load_config (get exec_res ''jobId'') application api_version key
          poll_interval_seconds timeout_seconds (clock E (tr0 @ [Time])) [] c0 (tr0 @ [Time])"
      from run ex Inr True obtain y where loop: "?loop = Some y"
        by (cases ?loop) (auto simp: planning_run_job_and_wait_def Let_def)
      obtain l c2 tr2 where y: "y = (l, c2, tr2)" by (metis prod_cases3)
      from run_loop_exit [OF loop] y obtain evs1 where evs1: "tr2 = (tr0 @ [Time]) @ evs1"
          "\<not> list_ex details_request evs1"
        by auto
      note lx = run_loop_exit [OF loop, unfolded y, simplified]
      show ?thesis
      proof (cases l)
        case (Inl e)
        with run ex \<open>x = Inr exec_res\<close> True loop y evs0 evs1 show ?thesis
          by (auto simp: planning_run_job_and_wait_def Let_def)
      next
        case l: (Inr le)
        show ?thesis
        proof (cases le)
          case (Return res)
          with lx l have "\<not> truthy (get res ''ok'')" by simp
          with run ex \<open>x = Inr exec_res\<close> True loop y evs0 evs1 l Return show ?thesis
            by (auto simp: planning_run_job_and_wait_def Let_def)
        next
          case (Break polls st)
          with lx l have br: "polls \<noteq> []" "terminal (get st ''status'') = Inr True" by simp_all
          obtain d c3 tr3 where det: "planning_get_job_details E load_config (get exec_res ''jobId'')
              details_offset details_limit application api_version key c2 tr2 = (d, c3, tr3)"
            by (metis prod_cases3)
          from details_prefix [OF det] obtain evs2 where evs2: "tr3 = tr2 @ evs2" by blast
          have "\<exists>evs. tr' = tr @ evs
              \<and> (case r of Inl e \<Rightarrow> True | Inr res \<Rightarrow> truthy (get res ''ok''))"
          proof (cases d)
            case (Inl e)
            with run ex \<open>x = Inr exec_res\<close> True loop y l Break det evs0 evs1 evs2 show ?thesis
              by (auto simp: planning_run_job_and_wait_def Let_def)
          next
            case (Inr details)
            with run ex \<open>x = Inr exec_res\<close> True loop y l Break det evs0 evs1 evs2 show ?thesis
              by (auto simp: planning_run_job_and_wait_def Let_def split: sum.splits
                  dest: run_report_ok)
          qed
          with ex \<open>x = Inr exec_res\<close> loop y l Break br show ?thesis
            by (auto split: sum.splits)
        qed
      qed
    qed
  qed
qed

lemma run_loop_after_polls:
  "after_polls n E load_config job_id application api_version key poll_interval_seconds
       timeout_seconds start polls c tr = Some (polls', c', tr') \<Longrightarrow>
   run_loop E load_config job_id application api_version key poll_interval_seconds
       timeout_seconds start polls c tr
     = run_loop E load_config job_id application api_version key poll_interval_seconds
         timeout_seconds start polls' c' tr'"
proof (induction n arbitrary: polls c tr)
  case 0
  then show ?case by simp
next
  case (Suc n)
  obtain s c1 tr1 where ps: "poll_step E load_config job_id application api_version key
      timeout_seconds start polls c tr = (s, c1, tr1)"
    by (metis prod_cases3)
  from Suc.prems ps obtain polls1 where s: "s = Continue polls1"
    and ap: "after_polls n E load_config job_id application api_version key poll_interval_seconds
       timeout_seconds start polls1 c1 (tr1 @ [Sleep (max 1 poll_interval_seconds)])
       = Some (polls', c', tr')"
    by (cases s) simp_all
  have "run_loop E load_config job_id application api_version key poll_interval_seconds
       timeout_seconds start polls c tr
     = run_loop E load_config job_id application api_version key poll_interval_seconds
         timeout_seconds start polls1 c1 (tr1 @ [Sleep (max 1 poll_interval_seconds)])"
    by (subst run_loop.simps) (simp add: ps s)
  with Suc.IH [OF ap] show ?case by simp
qed

lemma poll_step_continue:
  assumes "poll_step E load_config job_id application api_version key timeout_seconds start polls c tr
             = (Continue polls', c', tr')"
  shows "length polls' = Suc (length polls)"
  using assms
  by (auto simp: poll_step_def Let_def split: prod.splits sum.splits if_splits)

lemma after_polls_events:
  "after_polls n E load_config job_id application api_version key poll_interval_seconds
       timeout_seconds start polls c tr = Some (polls', c', tr') \<Longrightarrow>
   length polls' = length polls + n
   \<and> (\<exists>evs. tr' = tr @ evs \<and> \<not> list_ex details_request evs)"
proof (induction n arbitrary: polls c tr)
  case 0
  then show ?case by simp
next
  case (Suc n)
  obtain s c1 tr1 where ps: "poll_step E load_config job_id application api_version key
      timeout_seconds start polls c tr = (s, c1, tr1)"
    by (metis prod_cases3)
  from Suc.prems ps obtain polls1 where s: "s = Continue polls1"
    and ap: "after_polls n E load_config job_id application api_version key poll_interval_seconds
       timeout_seconds start polls1 c1 (tr1 @ [Sleep (max 1 poll_interval_seconds)])
       = Some (polls', c', tr')"
    by (cases s) simp_all
  from poll_step_exit [OF ps] obtain evs1 where e1: "tr1 = tr @ evs1" "\<not> list_ex details_request evs1"
    by blast
  from poll_step_continue [OF ps [unfolded s]] have l: "length polls1 = Suc (length polls)" .
  from Suc.IH [OF ap] obtain evs2 where
    e2: "tr' = (tr1 @ [Sleep (max 1 poll_interval_seconds)]) @ evs2" "\<not> list_ex details_request evs2"
    and l2: "length polls' = length polls1 + n"
    by blast
  from e1 e2 have "tr' = tr @ (evs1 @ [Sleep (max 1 poll_interval_seconds)] @ evs2)
      \<and> \<not> list_ex details_request (evs1 @ [Sleep (max 1 poll_interval_seconds)] @ evs2)"
    by simp
  with l l2 show ?case by (metis add_Suc_shift)
qed



lemma run_and_wait_poll_failure:
  assumes ex: "planning_execute_job E load_config job_type job_name parameters application
         api_version key c tr = (Inr exec_res, c0, tr0)"
    and ok: "truthy (get exec_res ''ok'')" and jid: "truthy (get exec_res ''jobId'')"
    and ap: "after_polls n E load_config (get exec_res ''jobId'') application api_version key
            poll_interval_seconds timeout_seconds (clock E (tr0 @ [Time])) [] c0 (tr0 @ [Time])
          = Some (polls, c1, tr1)"
    and st: "planning_get_job_status E load_config (get exec_res ''jobId'') application api_version
            key c1 tr1 = (Inr st, c2, tr2)"
  shows "length polls = n"
    and "\<exists>evs. tr2 = tr @ evs \<and> \<not> list_ex details_request evs"
    and "\<not> truthy (get st ''ok'') \<Longrightarrow>
           planning_run_job_and_wait E load_config job_type job_name parameters
               poll_interval_seconds timeout_seconds application api_version details_offset
               details_limit key c tr
             = Some (Inr [(''ok'', JBool False), (''error'', JStr ''POLL_FAILED''),
                          (''jobId'', get exec_res ''jobId''), (''status_call'', JDict st)],
                     c2, tr2)"
    and "truthy (get st ''ok'') \<Longrightarrow> terminal (get st ''status'') = Inr False \<Longrightarrow>
           clock E (tr2 @ [Time, Time]) - clock E (tr0 @ [Time]) \<ge> of_int timeout_seconds \<Longrightarrow>
           planning_run_job_and_wait E load_config job_type job_name parameters
               poll_interval_seconds timeout_seconds application api_version details_offset
               details_limit key c tr
             = Some (Inr [(''ok'', JBool False), (''error'', JStr ''TIMEOUT''),
                          (''message'', JStr (''Job did not complete within ''
                              @ str_int timeout_seconds @ ''s'')),
                          (''jobId'', get exec_res ''jobId''), (''lastStatus'', JDict st),
                          (''polls'', JList (polls @
                              [JDict [(''ts'', JNum (int_of_time (clock E (tr2 @ [Time])))),
                                      (''status'', get st ''status''),
                                      (''percentComplete'', get st ''percentComplete'')]]))],
                     c2, tr2 @ [Time, Time])"
proof -
  from after_polls_events [OF ap] have len: "length polls = n"
    and "\<exists>evs. tr1 = (tr0 @ [Time]) @ evs \<and> \<not> list_ex details_request evs"
    by simp_all
  then obtain evs1 where e1: "tr1 = (tr0 @ [Time]) @ evs1" "\<not> list_ex details_request evs1"
    by blast
  from execute_events [OF ex] obtain evs0 where e0: "tr0 = tr @ evs0" "\<not> list_ex details_request evs0"
    by blast
  from status_events [OF st] obtain evs2 where e2: "tr2 = tr1 @ evs2" "\<not> list_ex details_request evs2"
    by blast
  from len show "length polls = n" .
  from e0 e1 e2 have "tr2 = tr @ (evs0 @ [Time] @ evs1 @ evs2)"
    by simp
  moreover from e0 e1 e2 have "\<not> list_ex details_request (evs0 @ [Time] @ evs1 @ evs2)"
    by simp
  ultimately show "\<exists>evs. tr2 = tr @ evs \<and> \<not> list_ex details_request evs" by blast
  note unroll = run_loop_after_polls [OF ap]
  have run: "planning_run_job_and_wait E load_config job_type job_name parameters
               poll_interval_seconds timeout_seconds application api_version details_offset
               details_limit key c tr = Some (Inr res, c2, tr')"
    if "run_loop E load_config (get exec_res ''jobId'') application api_version key
            poll_interval_seconds timeout_seconds (clock E (tr0 @ [Time])) polls c1 tr1
          = Some (Inr (Return res), c2, tr')" for res tr'
  proof -
    from unroll that have loop0: "run_loop E load_config (get exec_res ''jobId'') application
        api_version key poll_interval_seconds timeout_seconds (clock E (tr0 @ [Time])) [] c0
        (tr0 @ [Time]) = Some (Inr (Return res), c2, tr')"
      by simp
    show ?thesis
      by (simp add: planning_run_job_and_wait_def Let_def ex ok jid loop0)
  qed
  {
    assume nok: "\<not> truthy (get st ''ok'')"
    have "run_loop E load_config (get exec_res ''jobId'') application api_version key
            poll_interval_seconds timeout_seconds (clock E (tr0 @ [Time])) polls c1 tr1
          = Some (Inr (Return [(''ok'', JBool False), (''error'', JStr ''POLL_FAILED''),
                          (''jobId'', get exec_res ''jobId''), (''status_call'', JDict st)]), c2, tr2)"
      by (subst run_loop.simps) (simp add: poll_step_def st nok)
    then show "planning_run_job_and_wait E load_config job_type job_name parameters
               poll_interval_seconds timeout_seconds application api_version details_offset
               details_limit key c tr
             = Some (Inr [(''ok'', JBool False), (''error'', JStr ''POLL_FAILED''),
                          (''jobId'', get exec_res ''jobId''), (''status_call'', JDict st)],
                     c2, tr2)"
      by (rule run)
  }
  {
    assume t: "truthy (get st ''ok'')" "terminal (get st ''status'') = Inr False"
           "clock E (tr2 @ [Time, Time]) - clock E (tr0 @ [Time]) \<ge> of_int timeout_seconds"
    have "run_loop E load_config (get exec_res ''jobId'') application api_version key
            poll_interval_seconds timeout_seconds (clock E (tr0 @ [Time])) polls c1 tr1
          = Some (Inr (Return [(''ok'', JBool False), (''error'', JStr ''TIMEOUT''),
                          (''message'', JStr (''Job did not complete within ''
                              @ str_int timeout_seconds @ ''s'')),
                          (''jobId'', get exec_res ''jobId''), (''lastStatus'', JDict st),
                          (''polls'', JList (polls @
                              [JDict [(''ts'', JNum (int_of_time (clock E (tr2 @ [Time])))),
                                      (''status'', get st ''status''),
                                      (''percentComplete'', get st ''percentComplete'')]]))]),
                   c2, tr2 @ [Time, Time])"
      using t by (subst run_loop.simps) (simp add: poll_step_def st Let_def)
    then show "planning_run_job_and_wait E load_config job_type job_name parameters
               poll_interval_seconds timeout_seconds application api_version details_offset
               details_limit key c tr
             = Some (Inr [(''ok'', JBool False), (''error'', JStr ''TIMEOUT''),
                          (''message'', JStr (''Job did not complete within ''
                              @ str_int timeout_seconds @ ''s'')),
                          (''jobId'', get exec_res ''jobId''), (''lastStatus'', JDict st),
                          (''polls'', JList (polls @
                              [JDict [(''ts'', JNum (int_of_time (clock E (tr2 @ [Time])))),
                                      (''status'', get st ''status''),
                                      (''percentComplete'', get st ''percentComplete'')]]))],
                     c2, tr2 @ [Time, Time])"
      by (rule run)
  }
qed


lemma failure_or_details:
  assumes "case r of Inl e \<Rightarrow> True | Inr res \<Rightarrow> A res \<or> \<not> D"
    and "\<not> D \<or> B"
  shows "D \<longrightarrow> (\<forall>res. r = Inr res \<longrightarrow> A res) \<and> B"
  using assms by (cases r) auto

lemma run_and_wait_details_after_break:
  assumes run: "planning_run_job_and_wait E load_config job_type job_name parameters
      poll_interval_seconds timeout_seconds application api_version details_offset details_limit
      key c tr = Some (r, c', tr')"
  shows "\<exists>evs. tr' = tr @ evs
          \<and> (list_ex details_request evs \<longrightarrow>
               (\<forall>res. r = Inr res \<longrightarrow> truthy (get res ''ok''))
               \<and> (\<exists>exec_res c0 tr0 polls st c2 tr2.
                    planning_execute_job E load_config job_type job_name parameters application
                      api_version key c tr = (Inr exec_res, c0, tr0)
                    \<and> run_loop E load_config (get exec_res ''jobId'') application api_version key
                         poll_interval_seconds timeout_seconds (clock E (tr0 @ [Time])) [] c0
                         (tr0 @ [Time]) = Some (Inr (Break polls st), c2, tr2)
                    \<and> polls \<noteq> [] \<and> terminal (get st ''status'') = Inr True))"
  using run_and_wait_trace [OF run]
  apply (elim exE conjE)
  subgoal for evs
    apply (rule exI [of _ evs])
    apply (rule conjI)
     apply assumption
    apply (erule failure_or_details)
    apply assumption
    done
  done

text \<open>
  C7. For every run of \<^verbatim>\<open>planning_run_job_and_wait\<close>. A failed submission is returned as
  it is, with no request after it. After a good submission and any number \<open>n\<close> of polls
  that went on to the sleep, a status poll that is not ok makes the operation return
  \<^verbatim>\<open>POLL_FAILED\<close> carrying that poll's result, and a poll that is ok, not terminal and past
  the deadline makes it return \<^verbatim>\<open>TIMEOUT\<close> carrying the \<open>n + 1\<close> polls and that last status;
  in both cases the trace of the operation ends with that poll (and the two clock readings
  of a timeout) and holds no details request. And whenever the operation ends with a
  details request among its requests, the loop was left by \<^verbatim>\<open>break\<close> on a poll whose
  status is terminal, and a result it returns is ok.
\<close>

theorem run_job_and_wait_failure_skips_details:
  "(planning_execute_job E load_config job_type job_name parameters application api_version
        key c tr = (Inr exec_res, c0, tr0)
      \<and> \<not> truthy (get exec_res ''ok'') \<longrightarrow>
    planning_run_job_and_wait E load_config job_type job_name parameters poll_interval_seconds
        timeout_seconds application api_version details_offset details_limit key c tr
      = Some (Inr exec_res, c0, tr0)
    \<and> (\<exists>evs. tr0 = tr @ evs \<and> \<not> list_ex details_request evs))
   \<and> (planning_execute_job E load_config job_type job_name parameters application api_version
         key c tr = (Inr exec_res, c0, tr0)
       \<and> truthy (get exec_res ''ok'') \<and> truthy (get exec_res ''jobId'')
       \<and> after_polls n E load_config (get exec_res ''jobId'') application api_version key
            poll_interval_seconds timeout_seconds (clock E (tr0 @ [Time])) [] c0 (tr0 @ [Time])
          = Some (polls, c1, tr1)
       \<and> planning_get_job_status E load_config (get exec_res ''jobId'') application api_version
            key c1 tr1 = (Inr st, c2, tr2) \<longrightarrow>
      length polls = n
      \<and> (\<exists>evs. tr2 = tr @ evs \<and> \<not> list_ex details_request evs)
      \<and> (\<not> truthy (get st ''ok'') \<longrightarrow>
           planning_run_job_and_wait E load_config job_type job_name parameters
               poll_interval_seconds timeout_seconds application api_version details_offset
               details_limit key c tr
             = Some (Inr [(''ok'', JBool False), (''error'', JStr ''POLL_FAILED''),
                          (''jobId'', get exec_res ''jobId''), (''status_call'', JDict st)],
                     c2, tr2))
      \<and> (truthy (get st ''ok'') \<and> terminal (get st ''status'') = Inr False
           \<and> clock E (tr2 @ [Time, Time]) - clock E (tr0 @ [Time]) \<ge> of_int timeout_seconds \<longrightarrow>
           planning_run_job_and_wait E load_config job_type job_name parameters
               poll_interval_seconds timeout_seconds application api_version details_offset
               details_limit key c tr
             = Some (Inr [(''ok'', JBool False), (''error'', JStr ''TIMEOUT''),
                          (''message'', JStr (''Job did not complete within ''
                              @ str_int timeout_seconds @ ''s'')),
                          (''jobId'', get exec_res ''jobId''), (''lastStatus'', JDict st),
                          (''polls'', JList (polls @
                              [JDict [(''ts'', JNum (int_of_time (clock E (tr2 @ [Time])))),
                                      (''status'', get st ''status''),
                                      (''percentComplete'', get st ''percentComplete'')]]))],
                     c2, tr2 @ [Time, Time])))
   \<and> (planning_run_job_and_wait E load_config job_type job_name parameters poll_interval_seconds
         timeout_seconds application api_version details_offset details_limit key c tr
         = Some (r, c', tr') \<longrightarrow>
       (\<exists>evs. tr' = tr @ evs
          \<and> (list_ex details_request evs \<longrightarrow>
               (\<forall>res. r = Inr res \<longrightarrow> truthy (get res ''ok''))
               \<and> (\<exists>exec_res c0 tr0 polls st c2 tr2.
                    planning_execute_job E load_config job_type job_name parameters application
                      api_version key c tr = (Inr exec_res, c0, tr0)
                    \<and> run_loop E load_config (get exec_res ''jobId'') application api_version key
                         poll_interval_seconds timeout_seconds (clock E (tr0 @ [Time])) [] c0
                         (tr0 @ [Time]) = Some (Inr (Break polls st), c2, tr2)
                    \<and> polls \<noteq> [] \<and> terminal (get st ''status'') = Inr True))))"
  apply (rule conjI)
   apply (rule impI)
   apply (erule conjE)
   apply (rule conjI)
    apply (simp add: planning_run_job_and_wait_def)
   apply (erule execute_events)
  apply (rule conjI)
   apply (rule impI)
   apply (elim conjE)
   apply (rule conjI)
    apply (erule (4) run_and_wait_poll_failure(1))
   apply (rule conjI)
    apply (erule (4) run_and_wait_poll_failure(2))
   apply (rule conjI)
    apply (rule impI)
    apply (erule (5) run_and_wait_poll_failure(3))
   apply (rule impI)
   apply (elim conjE)
   apply (erule (7) run_and_wait_poll_failure(4))
  apply (rule impI)
  apply (erule run_and_wait_details_after_break)
  done

theorem run_job_and_wait_failure_skips_details_witness:
  "planning_execute_job env_poll_lost (Inr cfg_copilot_example) ''RULES'' ''Rollup'' JNull
       None None None empty_cache []
     = (Inr [(''ok'', JBool True), (''jobId'', JStr ''J7''), (''status'', JStr ''Submitted''),
             (''raw'', JDict [(''jobId'', JStr ''J7''), (''status'', JStr ''Submitted'')])],
        empty_cache,
        [Request ''POST'' ''https://h/HyperionPlanning/rest/v3/applications/Vision/jobs'' JNull
           (JDict [(''jobType'', JStr ''RULES''), (''jobName'', JStr ''Rollup'')])])
   \<and> planning_run_job_and_wait env_poll_lost (Inr cfg_copilot_example) ''RULES'' ''Rollup'' JNull
       5 900 None None 0 200 None empty_cache []
     = Some (Inr [(''ok'', JBool False), (''error'', JStr ''POLL_FAILED''), (''jobId'', JStr ''J7''),
                  (''status_call'', JDict [(''ok'', JBool False), (''error'', JStr ''NETWORK_ERROR''),
                                           (''message'', JStr ''connection reset'')])],
             empty_cache,
        [Request ''POST'' ''https://h/HyperionPlanning/rest/v3/applications/Vision/jobs'' JNull
           (JDict [(''jobType'', JStr ''RULES''), (''jobName'', JStr ''Rollup'')]),
         Time,
         Request ''GET'' ''https://h/HyperionPlanning/rest/v3/applications/Vision/jobs/J7'' JNull JNull,
         Time, Time, Sleep 5,
         Request ''GET'' ''https://h/HyperionPlanning/rest/v3/applications/Vision/jobs/J7'' JNull JNull])"
proof -
  let ?ex = "[(''ok'', JBool True), (''jobId'', JStr ''J7''), (''status'', JStr ''Submitted''),
             (''raw'', JDict [(''jobId'', JStr ''J7''), (''status'', JStr ''Submitted'')])]"
  let ?post = "Request ''POST'' ''https://h/HyperionPlanning/rest/v3/applications/Vision/jobs'' JNull
           (JDict [(''jobType'', JStr ''RULES''), (''jobName'', JStr ''Rollup'')])"
  let ?tr0 = "[?post]"
  let ?get = "Request ''GET'' ''https://h/HyperionPlanning/rest/v3/applications/Vision/jobs/J7'' JNull JNull"
  let ?poll = "JDict [(''ts'', JNum 4), (''status'', JStr ''Running''), (''percentComplete'', JNum 40)]"
  let ?st = "[(''ok'', JBool False), (''error'', JStr ''NETWORK_ERROR''),
              (''message'', JStr ''connection reset'')]"
  have ck: "clock env_poll_lost tr = real (length tr)" for tr
    by (simp add: env_poll_lost_def)
  have h1: "planning_execute_job env_poll_lost (Inr cfg_copilot_example) ''RULES'' ''Rollup'' JNull
       None None None empty_cache [] = (Inr ?ex, empty_cache, ?tr0)"
    by (simp add: planning_execute_job_def enforce_client_key_def allowlist_check_def
        truthy_opt_def cfg_copilot_example_def pbcs_request_def pbcs_send_def jobs_url_def
        str_or_def env_poll_lost_def upper_def upper_char_def upper_letters_def lower_letters_def
        get_def Let_def payload_of_def py_or_def lower_def lower_char_def REDACT_KEYS_def)
  have ok: "truthy (get ?ex ''ok'')" and jid: "truthy (get ?ex ''jobId'')"
    and j: "get ?ex ''jobId'' = JStr ''J7''"
    by (simp_all add: get_def)
  have s1: "planning_get_job_status env_poll_lost (Inr cfg_copilot_example) (JStr ''J7'') None None None
       empty_cache [?post, Time]
     = (Inr [(''ok'', JBool True), (''jobId'', JStr ''J7''), (''status'', JStr ''Running''),
             (''percentComplete'', JNum 40), (''startTime'', JNull), (''endTime'', JNull),
             (''raw'', JDict [(''status'', JStr ''Running''), (''percentComplete'', JNum 40)])],
        empty_cache, [?post, Time, ?get])"
    by (simp add: planning_get_job_status_def enforce_client_key_def
        truthy_opt_def cfg_copilot_example_def pbcs_request_def pbcs_send_def jobs_url_def
        str_or_def env_poll_lost_def upper_def upper_char_def upper_letters_def lower_letters_def
        get_def Let_def payload_of_def py_or_def lower_def lower_char_def REDACT_KEYS_def py_str_def)
  have t1: "terminal (JStr ''Running'') = Inr False"
    by (simp add: terminal_def py_or_def upper_def upper_char_def upper_letters_def lower_letters_def)
  have p1: "poll_step env_poll_lost (Inr cfg_copilot_example) (JStr ''J7'') None None None 900
       (clock env_poll_lost [?post, Time]) [] empty_cache [?post, Time]
     = (Continue [?poll], empty_cache, [?post, Time, ?get, Time, Time])"
    by (simp add: poll_step_def s1 t1 get_def Let_def ck int_of_time_def)
  have ap: "after_polls (Suc 0) env_poll_lost (Inr cfg_copilot_example) (get ?ex ''jobId'') None None None
       5 900 (clock env_poll_lost (?tr0 @ [Time])) [] empty_cache (?tr0 @ [Time])
     = Some ([?poll], empty_cache, [?post, Time, ?get, Time, Time, Sleep 5])"
    by (simp add: j p1)
  have s2: "planning_get_job_status env_poll_lost (Inr cfg_copilot_example) (get ?ex ''jobId'') None None None
       empty_cache [?post, Time, ?get, Time, Time, Sleep 5]
     = (Inr ?st, empty_cache, [?post, Time, ?get, Time, Time, Sleep 5, ?get])"
    by (simp add: j planning_get_job_status_def enforce_client_key_def
        truthy_opt_def cfg_copilot_example_def pbcs_request_def pbcs_send_def jobs_url_def
        str_or_def env_poll_lost_def upper_def upper_char_def upper_letters_def lower_letters_def
        get_def Let_def py_str_def)
  have nok: "\<not> truthy (get ?st ''ok'')" by (simp add: get_def)
  note T = run_job_and_wait_failure_skips_details [THEN conjunct2, THEN conjunct1, rule_format,
      OF conjI [OF h1 conjI [OF ok conjI [OF jid conjI [OF ap s2]]]]]
  from T [THEN conjunct2, THEN conjunct2, THEN conjunct1, rule_format, OF nok, of 0 200]
  have "planning_run_job_and_wait env_poll_lost (Inr cfg_copilot_example) ''RULES'' ''Rollup'' JNull
       5 900 None None 0 200 None empty_cache []
     = Some (Inr [(''ok'', JBool False), (''error'', JStr ''POLL_FAILED''), (''jobId'', JStr ''J7''),
                  (''status_call'', JDict ?st)], empty_cache,
             [?post, Time, ?get, Time, Time, Sleep 5, ?get])"
    by (simp add: j)
  with h1 show ?thesis by simp
qed

subsection \<open>Submitting a job\<close>

text \<open>
  C8, as stated, fails: a submission response with none of the job id fields makes
  \<^verbatim>\<open>planning_execute_job\<close> report \<^verbatim>\<open>ok: true\<close> with \<^verbatim>\<open>jobId: None\<close>.
\<close>

theorem execute_job_without_id_counterexample:
  "planning_execute_job env_submitted_without_id (Inr cfg_copilot_example) ''RULES'' ''Rollup''
       JNull None None None empty_cache []
     = (Inr [(''ok'', JBool True), (''jobId'', JNull), (''status'', JStr ''Submitted''),
             (''raw'', JDict [(''status'', JStr ''Submitted'')])], empty_cache,
        [Request ''POST'' ''https://h/HyperionPlanning/rest/v3/applications/Vision/jobs'' JNull
           (JDict [(''jobType'', JStr ''RULES''), (''jobName'', JStr ''Rollup'')])])"
  by (simp add: planning_execute_job_def enforce_client_key_def allowlist_check_def
      truthy_opt_def cfg_copilot_example_def pbcs_request_def pbcs_send_def jobs_url_def
      str_or_def env_submitted_without_id_def upper_def upper_char_def upper_letters_def lower_letters_def get_def Let_def
      payload_of_def py_or_def lower_def lower_char_def  REDACT_KEYS_def)

text \<open>
  C8, amended. For every ok submission response with payload \<open>p\<close>:
  \<^verbatim>\<open>planning_execute_job\<close> reports \<^verbatim>\<open>ok: true\<close> and takes as job id the first of the fields
  \<^verbatim>\<open>jobId\<close>, \<^verbatim>\<open>jobID\<close>, \<^verbatim>\<open>id\<close>, \<^verbatim>\<open>jobIdentifier\<close>, in this order, whose value is truthy;
  when none is, the job id it reports is not truthy (\<^verbatim>\<open>None\<close> when the fields are absent),
  and it is \<^verbatim>\<open>planning_run_job_and_wait\<close> that then fails, with \<^verbatim>\<open>NO_JOB_ID\<close> and without
  any further request.
\<close>

theorem execute_job_id_aliases:
  assumes "load_config = Inr cfg"
    and "enforce_client_key cfg key = None"
    and "allowlist_check cfg job_type job_name = None"
    and "pbcs_request E cfg ''POST'' (jobs_url cfg application api_version) JNull
           (JDict ([(''jobType'', JStr job_type), (''jobName'', JStr job_name)]
              @ (if truthy parameters then [(''parameters'', parameters)] else []))) c tr
         = (Inr res, c1, tr1)"
    and "truthy (get res ''ok'')"
    and "get res ''response'' = JDict p"
  shows "planning_execute_job E load_config job_type job_name parameters application api_version
             key c tr
           = (Inr [(''ok'', JBool True),
                   (''jobId'', first_of [''jobId'', ''jobID'', ''id'', ''jobIdentifier''] p),
                   (''status'', first_of [''status'', ''descriptiveStatus'', ''state''] p),
                   (''raw'', JDict p)], c1, tr1)
     \<and> (if truthy (first_of [''jobId'', ''jobID'', ''id'', ''jobIdentifier''] p)
         then True
         else planning_run_job_and_wait E load_config job_type job_name parameters
                poll_interval_seconds timeout_seconds application api_version details_offset
                details_limit key c tr
              = Some (Inr [(''ok'', JBool False), (''error'', JStr ''NO_JOB_ID''),
                           (''message'', JStr ''Execute did not return jobId''),
                           (''raw'', JDict [(''ok'', JBool True),
                              (''jobId'', first_of [''jobId'', ''jobID'', ''id'', ''jobIdentifier''] p),
                              (''status'', first_of [''status'', ''descriptiveStatus'', ''state''] p),
                              (''raw'', JDict p)])], c1, tr1))"
proof -
  have ex: "planning_execute_job E load_config job_type job_name parameters application api_version
             key c tr
           = (Inr [(''ok'', JBool True),
                   (''jobId'', first_of [''jobId'', ''jobID'', ''id'', ''jobIdentifier''] p),
                   (''status'', first_of [''status'', ''descriptiveStatus'', ''state''] p),
                   (''raw'', JDict p)], c1, tr1)"
    using assms by (simp add: planning_execute_job_def Let_def py_or_def)
  show ?thesis
    by (simp add: ex planning_run_job_and_wait_def get_def)
qed

theorem execute_job_id_aliases_witness:
  "enforce_client_key cfg_copilot_example None = None
   \<and> allowlist_check cfg_copilot_example ''RULES'' ''Rollup'' = None
   \<and> first_of [''jobId'', ''jobID'', ''id'', ''jobIdentifier''] [(''status'', JStr ''Submitted'')] = JNull
   \<and> planning_run_job_and_wait env_submitted_without_id (Inr cfg_copilot_example) ''RULES'' ''Rollup''
        JNull 5 900 None None 0 200 None empty_cache []
      = Some (Inr [(''ok'', JBool False), (''error'', JStr ''NO_JOB_ID''),
                   (''message'', JStr ''Execute did not return jobId''),
                   (''raw'', JDict [(''ok'', JBool True), (''jobId'', JNull),
                      (''status'', JStr ''Submitted''),
                      (''raw'', JDict [(''status'', JStr ''Submitted'')])])], empty_cache,
        [Request ''POST'' ''https://h/HyperionPlanning/rest/v3/applications/Vision/jobs'' JNull
           (JDict [(''jobType'', JStr ''RULES''), (''jobName'', JStr ''Rollup'')])])"
proof -
  let ?p = "[(''status'', JStr ''Submitted'')]"
  let ?res = "[(''ok'', JBool True), (''status_code'', JNum 200), (''response'', JDict ?p)]"
  let ?tr = "[Request ''POST'' ''https://h/HyperionPlanning/rest/v3/applications/Vision/jobs'' JNull
           (JDict [(''jobType'', JStr ''RULES''), (''jobName'', JStr ''Rollup'')])]"
  have h1: "enforce_client_key cfg_copilot_example None = None"
    by (simp add: enforce_client_key_def cfg_copilot_example_def truthy_opt_def)
  have h2: "allowlist_check cfg_copilot_example ''RULES'' ''Rollup'' = None"
    by (simp add: allowlist_check_def cfg_copilot_example_def)
  have h3: "pbcs_request env_submitted_without_id cfg_copilot_example ''POST''
           (jobs_url cfg_copilot_example None None) JNull
           (JDict ([(''jobType'', JStr ''RULES''), (''jobName'', JStr ''Rollup'')]
              @ (if truthy JNull then [(''parameters'', JNull)] else []))) empty_cache []
         = (Inr ?res, empty_cache, ?tr)"
    by (simp add: cfg_copilot_example_def pbcs_request_def pbcs_send_def jobs_url_def
      str_or_def env_submitted_without_id_def upper_def upper_char_def upper_letters_def lower_letters_def Let_def
      payload_of_def lower_def lower_char_def  REDACT_KEYS_def)
  have h4: "truthy (get ?res ''ok'')" and h5: "get ?res ''response'' = JDict ?p"
    by (simp_all add: get_def)
  have f: "first_of [''jobId'', ''jobID'', ''id'', ''jobIdentifier''] ?p = JNull"
     "first_of [''status'', ''descriptiveStatus'', ''state''] ?p = JStr ''Submitted''"
    by (simp_all add: get_def)
  from execute_job_id_aliases [OF refl h1 h2 h3 h4 h5, of 5 900 0 200] h1 h2 f
  show ?thesis by simp
qed

subsection \<open>The token cache\<close>

text \<open>
  C5, as stated, fails: the stored expiry is not always the time of storing plus
  \<^verbatim>\<open>expires_in\<close>. With \<^verbatim>\<open>expires_in = -5\<close> and the clock at 2 when the token is stored, the
  cache holds expiry 2, not -3.
\<close>

theorem token_expiry_counterexample:
  "get_oauth_token env_token_negative_lifetime cfg_oauth_example empty_cache []
     = (Inr (True, [(''access_token'', JStr ''tok''), (''cached'', JBool False)]),
        \<lparr> token = JStr ''tok'', expires_at = 2 \<rparr>,
        [Post (Some ''https://idcs/token'') (JDict [(''grant_type'', JStr ''client_credentials'')]),
         Time])"
  by (simp add: get_oauth_token_def TokenCache_get_def TokenCache_set_def empty_cache_def
      cfg_oauth_example_def cfg_copilot_example_def env_token_negative_lifetime_def
      token_payload_of_def get_def Let_def)

text \<open>
  C5, amended. A cache holding a (truthy) token, read at a clock time strictly below the
  stored expiry minus 30, returns that token with the cache unchanged and no request made.
  Otherwise (no token, or the clock at or past expiry minus 30) exactly one token request
  is posted, and: on a network failure, on a status of 300 or more, or on a response
  without \<^verbatim>\<open>access_token\<close>, an error is returned and the cache is unchanged; on a response
  below 300 with a token and an integer \<^verbatim>\<open>expires_in\<close> (3600 when the field is absent) the
  cache then holds the new token with expiry \<^verbatim>\<open>now + max(0, expires_in)\<close>, \<^verbatim>\<open>now\<close> being the
  clock at the time of storing.
\<close>

theorem token_cache_acquire:
  "(truthy (token c) \<and> clock E (tr @ [Time]) < expires_at c - 30 \<longrightarrow>
      get_oauth_token E cfg c tr
        = (Inr (True, [(''access_token'', token c), (''cached'', JBool True)]), c, tr @ [Time]))
   \<and> (\<not> (truthy (token c) \<and> clock E (tr @ [Time]) < expires_at c - 30)
       \<and> tr1 = (if truthy (token c) then tr @ [Time] else tr)
              @ [Post (idcs_token_url cfg)
                   (JDict ([(''grant_type'', JStr ''client_credentials'')]
                      @ (case oauth_scope cfg of None \<Rightarrow> []
                         | Some s \<Rightarrow> if s = [] then [] else [(''scope'', JStr s)])))] \<longrightarrow>
       (case respond E tr1 of
          RequestException e \<Rightarrow>
            get_oauth_token E cfg c tr
              = (Inr (False, [(''error'', JStr ''OAUTH_NETWORK_ERROR''), (''message'', JStr e)]), c, tr1)
        | Response resp \<Rightarrow>
            if status_code resp \<ge> 300 then
              get_oauth_token E cfg c tr
                = (Inr (False, [(''error'', JStr ''OAUTH_HTTP_ERROR''),
                                (''status_code'', JNum (status_code resp)),
                                (''response'', token_payload_of resp)]), c, tr1)
            else
              (case token_payload_of resp of
                 JDict p \<Rightarrow>
                   if \<not> truthy (get p ''access_token'') then
                     get_oauth_token E cfg c tr
                       = (Inr (False, [(''error'', JStr ''OAUTH_BAD_RESPONSE''),
                                       (''response'', JDict p)]), c, tr1)
                   else
                     (case py_int E (case map_of p ''expires_in'' of None \<Rightarrow> JNum 3600 | Some v \<Rightarrow> v) of
                        Inr n \<Rightarrow>
                          get_oauth_token E cfg c tr
                            = (Inr (True, [(''access_token'', get p ''access_token''),
                                           (''cached'', JBool False)]),
                               c\<lparr>token := get p ''access_token'',
                                 expires_at := clock E (tr1 @ [Time]) + of_int (max 0 n)\<rparr>,
                               tr1 @ [Time])
                      | Inl e \<Rightarrow> get_oauth_token E cfg c tr = (Inl e, c, tr1))
               | _ \<Rightarrow> get_oauth_token E cfg c tr = (Inl AttributeError, c, tr1))))"
  by (auto simp: get_oauth_token_def TokenCache_get_def TokenCache_set_def Let_def
      split: outcome.splits json.splits sum.splits option.splits)

theorem token_cache_acquire_witness:
  "truthy (token \<lparr> token = JStr ''tok'', expires_at = 100 \<rparr>)
   \<and> clock env_token_negative_lifetime ([] @ [Time]) < expires_at \<lparr> token = JStr ''tok'', expires_at = 100 \<rparr> - 30
   \<and> get_oauth_token env_token_negative_lifetime cfg_oauth_example
        \<lparr> token = JStr ''tok'', expires_at = 100 \<rparr> []
      = (Inr (True, [(''access_token'', JStr ''tok''), (''cached'', JBool True)]),
         \<lparr> token = JStr ''tok'', expires_at = 100 \<rparr>, [Time])"
proof -
  have h1: "truthy (token \<lparr> token = JStr ''tok'', expires_at = 100 \<rparr>)" by simp
  have h2: "clock env_token_negative_lifetime ([] @ [Time])
      < expires_at \<lparr> token = JStr ''tok'', expires_at = 100 \<rparr> - 30"
    by (simp add: env_token_negative_lifetime_def)
  from token_cache_acquire [of "\<lparr> token = JStr ''tok'', expires_at = 100 \<rparr>"
      env_token_negative_lifetime "[]" cfg_oauth_example] h1 h2
  show ?thesis by simp
qed

end
